theory Spec2Isabelle
  imports Main
begin

section \<open>Strings as the scripts use them\<close>

text \<open>
  JavaScript strings are modelled as \<open>string\<close> (a list of 8-bit characters); \<open>length\<close>
  is the script's \<open>.length\<close> on text of that range.  The regular expressions of the
  scripts are written out as the scanners they denote.
\<close>

abbreviation NL :: char where "NL \<equiv> CHR 0x0A"

text \<open>The class \<open>\s\<close> of a JavaScript regular expression, which is also what
  \<open>String.prototype.trim\<close> strips: tab, line feed, vertical tab, form feed, carriage
  return, space and no-break space.\<close>

definition is_ws :: "char \<Rightarrow> bool" where
  "is_ws c = (c = CHR 0x09 \<or> c = CHR 0x0A \<or> c = CHR 0x0B \<or> c = CHR 0x0C
              \<or> c = CHR 0x0D \<or> c = CHR 0x20 \<or> c = CHR 0xA0)"

abbreviation non_ws :: "char \<Rightarrow> bool" where "non_ws c \<equiv> \<not> is_ws c"

text \<open>\<open>s.trim()\<close>\<close>

definition trim :: "string \<Rightarrow> string" where
  "trim s = rev (dropWhile is_ws (rev (dropWhile is_ws s)))"

text \<open>\<open>s.split(/\s+/)\<close>: the pieces between the maximal runs of white space; a run at
  the start or at the end leaves an empty piece there, and the empty string splits into
  one empty piece.\<close>

function split_ws :: "string \<Rightarrow> string list" where
  "split_ws s =
     (if dropWhile non_ws s = [] then [takeWhile non_ws s]
      else takeWhile non_ws s # split_ws (dropWhile is_ws (dropWhile non_ws s)))"
  by pat_completeness auto
termination
proof (relation "measure length")
  show "wf (measure length)" by simp
next
  fix s :: string
  assume ne: "dropWhile non_ws s \<noteq> []"
  then obtain c cs where r: "dropWhile non_ws s = c # cs"
    by (cases "dropWhile non_ws s") auto
  have "is_ws c" using hd_dropWhile [OF ne] r by simp
  then have "length (dropWhile is_ws (c # cs)) \<le> length cs"
    by (simp add: length_dropWhile_le)
  moreover have "length (c # cs) \<le> length s"
    using length_dropWhile_le [of non_ws s] r by simp
  ultimately show "(dropWhile is_ws (dropWhile non_ws s), s) \<in> measure length"
    using r by simp
qed

declare split_ws.simps [simp del]

text \<open>\<open>s.replace(/\s+/g, ' ')\<close>: every maximal run of white space becomes one space.\<close>

function collapse_ws :: "string \<Rightarrow> string" where
  "collapse_ws [] = []"
| "collapse_ws (c # cs) =
     (if is_ws c then CHR '' '' # collapse_ws (dropWhile is_ws cs)
      else c # collapse_ws cs)"
  by pat_completeness auto
termination
  by (relation "measure length") (auto simp: length_dropWhile_le less_Suc_eq_le)

text \<open>\<open>s.replace(/\n{3,}/g, '\n\n')\<close>: every maximal run of three or more line feeds
  becomes two line feeds; shorter runs stay.\<close>

function collapse_newlines :: "string \<Rightarrow> string" where
  "collapse_newlines [] = []"
| "collapse_newlines (c # cs) =
     (if c = NL \<and> 2 \<le> length (takeWhile (\<lambda>x. x = NL) cs)
      then NL # NL # collapse_newlines (dropWhile (\<lambda>x. x = NL) cs)
      else c # collapse_newlines cs)"
  by pat_completeness auto
termination
  by (relation "measure length") (auto simp: length_dropWhile_le less_Suc_eq_le)

text \<open>\<open>s.startsWith(p)\<close>\<close>

fun startsWith :: "string \<Rightarrow> string \<Rightarrow> bool" where
  "startsWith s [] = True"
| "startsWith [] (p # ps) = False"
| "startsWith (c # cs) (p # ps) = (c = p \<and> startsWith cs ps)"

text \<open>\<open>xs.join(sep)\<close>\<close>

fun join :: "string \<Rightarrow> string list \<Rightarrow> string" where
  "join sep [] = []"
| "join sep [x] = x"
| "join sep (x # y # ys) = x @ sep @ join sep (y # ys)"

section \<open>Counting words\<close>

text \<open>
  \<^verbatim>\<open>text.trim().split(/\s+/).filter(word => word.length > 0).length\<close>
  (the same expression in both extractors).
\<close>

definition countWords :: "string \<Rightarrow> nat" where
  "countWords text = length (filter (\<lambda>word. 0 < length word) (split_ws (trim text)))"

text \<open>The specification's notion, independent of the script: the non-empty tokens of a
  text delimited by the characters \<open>sep\<close>, read off by one left-to-right scan that
  keeps the token being read in \<open>cur\<close>.\<close>

fun tokens_by :: "(char \<Rightarrow> bool) \<Rightarrow> string \<Rightarrow> string \<Rightarrow> string list" where
  "tokens_by sep cur [] = (if cur = [] then [] else [cur])"
| "tokens_by sep cur (c # cs) =
     (if sep c then (if cur = [] then tokens_by sep [] cs else cur # tokens_by sep [] cs)
      else tokens_by sep (cur @ [c]) cs)"

text \<open>The white-space-delimited non-empty tokens.\<close>

definition tokens :: "string \<Rightarrow> string list" where
  "tokens s = tokens_by is_ws [] s"

section \<open>The document object model\<close>

text \<open>
  A node is a text node, an element (lower-case tag name, attributes in source order,
  child nodes), or a node of another kind (a comment), which the scripts skip.
\<close>

datatype node =
    Text string
  | Comment string
  | Element string "(string \<times> string) list" "node list"

fun childNodes :: "node \<Rightarrow> node list" where
  "childNodes (Element t as ks) = ks"
| "childNodes _ = []"

text \<open>\<open>textContent\<close> of an element: the text of its descendant text nodes, in document
  order; comments contribute nothing.\<close>

fun text_of :: "node \<Rightarrow> string" and text_of_list :: "node list \<Rightarrow> string" where
  "text_of (Text s) = s"
| "text_of (Comment s) = []"
| "text_of (Element t as ks) = text_of_list ks"
| "text_of_list [] = []"
| "text_of_list (n # ns) = text_of n @ text_of_list ns"

abbreviation textContent :: "node \<Rightarrow> string" where "textContent n \<equiv> text_of n"

text \<open>\<open>getAttribute\<close> (\<open>None\<close> is \<open>null\<close>) and \<open>hasAttribute\<close>.\<close>

fun getAttribute :: "node \<Rightarrow> string \<Rightarrow> string option" where
  "getAttribute (Element t as ks) name = map_of as name"
| "getAttribute _ name = None"

definition hasAttribute :: "node \<Rightarrow> string \<Rightarrow> bool" where
  "hasAttribute n name = (getAttribute n name \<noteq> None)"

fun tag_of :: "node \<Rightarrow> string option" where
  "tag_of (Element t as ks) = Some t"
| "tag_of _ = None"

text \<open>\<open>a || b\<close> on strings, where \<open>null\<close>, \<open>undefined\<close> and the empty string are falsy.\<close>

definition or_else :: "string option \<Rightarrow> string \<Rightarrow> string" where
  "or_else a b = (case a of None \<Rightarrow> b | Some s \<Rightarrow> if s = [] then b else s)"

subsection \<open>Selectors\<close>

text \<open>The selectors the scripts pass to \<open>querySelector\<close> and \<open>querySelectorAll\<close>.\<close>

datatype selector =
    Tag string                          \<comment> \<open>\<open>h1\<close>\<close>
  | Class string                        \<comment> \<open>\<open>.title\<close>\<close>
  | Id string                           \<comment> \<open>\<open>#content\<close>\<close>
  | AttrEq string string                \<comment> \<open>\<open>[name="author"]\<close>\<close>
  | AttrContains string string          \<comment> \<open>\<open>[style*="display: none"]\<close>\<close>
  | TagAttr string string               \<comment> \<open>\<open>a[href]\<close>\<close>
  | TagAttrEq string string string      \<comment> \<open>\<open>meta[name="author"]\<close>\<close>
  | Either selector selector            \<comment> \<open>\<open>td, th\<close>\<close>
  | AnyCaseClass string                 \<comment> \<open>\<open>.title\<close> in a document in quirks mode\<close>
  | AnyCaseId string                    \<comment> \<open>\<open>#content\<close> in a document in quirks mode\<close>

text \<open>The separators of a class attribute: tab, line feed, form feed, carriage return,
  space.\<close>

definition is_html_space :: "char \<Rightarrow> bool" where
  "is_html_space c = (c = CHR 0x09 \<or> c = CHR 0x0A \<or> c = CHR 0x0C \<or> c = CHR 0x0D \<or> c = CHR 0x20)"

definition classList :: "node \<Rightarrow> string list" where
  "classList n = (case getAttribute n ''class'' of None \<Rightarrow> []
                  | Some v \<Rightarrow> tokens_by is_html_space [] v)"

text \<open>\<open>s.str_includes(p)\<close>\<close>

fun str_includes :: "string \<Rightarrow> string \<Rightarrow> bool" where
  "str_includes [] p = (p = [])"
| "str_includes (c # cs) p = (startsWith (c # cs) p \<or> str_includes cs p)"

text \<open>In an HTML document the values of these attributes are compared in selectors
  without regard to the case of ASCII letters; the values of all others exactly.\<close>

definition to_lower :: "char \<Rightarrow> char" where
  "to_lower c =
     (case map_of (zip ''ABCDEFGHIJKLMNOPQRSTUVWXYZ'' ''abcdefghijklmnopqrstuvwxyz'') c of
        Some l \<Rightarrow> l
      | None \<Rightarrow> c)"

definition case_insensitive_attributes :: "string list" where
  "case_insensitive_attributes =
     [''accept'', ''accept-charset'', ''align'', ''alink'', ''axis'', ''bgcolor'', ''charset'',
      ''checked'', ''clear'', ''codetype'', ''color'', ''compact'', ''declare'', ''defer'',
      ''dir'', ''direction'', ''disabled'', ''enctype'', ''face'', ''frame'', ''hreflang'',
      ''http-equiv'', ''lang'', ''language'', ''link'', ''media'', ''method'', ''multiple'',
      ''nohref'', ''noresize'', ''noshade'', ''nowrap'', ''readonly'', ''rel'', ''rev'',
      ''rules'', ''scope'', ''scrolling'', ''selected'', ''shape'', ''target'', ''text'',
      ''type'', ''valign'', ''valuetype'', ''vlink'']"

definition value_matches :: "string \<Rightarrow> string \<Rightarrow> string \<Rightarrow> bool" where
  "value_matches a w v =
     (if a \<in> set case_insensitive_attributes then map to_lower w = map to_lower v
      else w = v)"

definition value_contains :: "string \<Rightarrow> string \<Rightarrow> string \<Rightarrow> bool" where
  "value_contains a w v =
     (if a \<in> set case_insensitive_attributes
      then str_includes (map to_lower w) (map to_lower v)
      else str_includes w v)"

fun matches :: "selector \<Rightarrow> node \<Rightarrow> bool" where
  "matches (Tag t) n = (tag_of n = Some t)"
| "matches (Class c) n = (tag_of n \<noteq> None \<and> c \<in> set (classList n))"
| "matches (Id i) n = (getAttribute n ''id'' = Some i)"
| "matches (AttrEq a v) n =
     (case getAttribute n a of None \<Rightarrow> False | Some w \<Rightarrow> value_matches a w v)"
| "matches (AttrContains a v) n =
     (case getAttribute n a of None \<Rightarrow> False | Some w \<Rightarrow> v \<noteq> [] \<and> value_contains a w v)"
| "matches (TagAttr t a) n = (tag_of n = Some t \<and> hasAttribute n a)"
| "matches (TagAttrEq t a v) n =
     (tag_of n = Some t
      \<and> (case getAttribute n a of None \<Rightarrow> False | Some w \<Rightarrow> value_matches a w v))"
| "matches (Either s1 s2) n = (matches s1 n \<or> matches s2 n)"
| "matches (AnyCaseClass c) n =
     (tag_of n \<noteq> None \<and> map to_lower c \<in> set (map (map to_lower) (classList n)))"
| "matches (AnyCaseId i) n =
     (case getAttribute n ''id'' of None \<Rightarrow> False | Some w \<Rightarrow> map to_lower w = map to_lower i)"

text \<open>A selector as a document reads it: in a document in quirks mode (a page without a
  document type) class and ID selectors match without regard to the case of ASCII
  letters.\<close>

fun as_read :: "bool \<Rightarrow> selector \<Rightarrow> selector" where
  "as_read quirks (Class c) = (if quirks then AnyCaseClass c else Class c)"
| "as_read quirks (Id i) = (if quirks then AnyCaseId i else Id i)"
| "as_read quirks (Either s1 s2) = Either (as_read quirks s1) (as_read quirks s2)"
| "as_read quirks (Tag t) = Tag t"
| "as_read quirks (AttrEq a v) = AttrEq a v"
| "as_read quirks (AttrContains a v) = AttrContains a v"
| "as_read quirks (TagAttr t a) = TagAttr t a"
| "as_read quirks (TagAttrEq t a v) = TagAttrEq t a v"
| "as_read quirks (AnyCaseClass c) = AnyCaseClass c"
| "as_read quirks (AnyCaseId i) = AnyCaseId i"

text \<open>The elements of a subtree in document order, the root first.\<close>

fun elements :: "node \<Rightarrow> node list" and elements_list :: "node list \<Rightarrow> node list" where
  "elements (Text s) = []"
| "elements (Comment s) = []"
| "elements (Element t as ks) = Element t as ks # elements_list ks"
| "elements_list [] = []"
| "elements_list (n # ns) = elements n @ elements_list ns"

text \<open>\<open>element.querySelectorAll(sel)\<close> looks at the descendants of the element only;
  \<open>element.querySelector(sel)\<close> is the first of them, or \<open>null\<close>.\<close>

definition querySelectorAll :: "node \<Rightarrow> selector \<Rightarrow> node list" where
  "querySelectorAll n sel = filter (matches sel) (elements_list (childNodes n))"

definition querySelector :: "node \<Rightarrow> selector \<Rightarrow> node option" where
  "querySelector n sel = (case querySelectorAll n sel of [] \<Rightarrow> None | e # _ \<Rightarrow> Some e)"

subsection \<open>Documents\<close>

text \<open>
  A document has its title string and its root element, which holds the head and the
  body.  A document need not have a body (a page that is not HTML, a page whose body was
  removed): then \<open>document.body\<close> is \<open>null\<close>, and reading a property of it throws a
  \<open>TypeError\<close>.  \<open>document.querySelector\<close> looks at every element of the document,
  the root included.
\<close>

record document =
  doc_title :: string
  doc_head :: "node list"
  doc_body :: "node option"

definition doc_root :: "document \<Rightarrow> node" where
  "doc_root d =
     Element ''html'' []
       (Element ''head'' [] (doc_head d) # (case doc_body d of None \<Rightarrow> [] | Some b \<Rightarrow> [b]))"

definition doc_querySelector :: "document \<Rightarrow> selector \<Rightarrow> node option" where
  "doc_querySelector d sel =
     (case filter (matches sel) (elements (doc_root d)) of [] \<Rightarrow> None | e # _ \<Rightarrow> Some e)"


section \<open>Exceptions and the host environment\<close>

text \<open>
  A computation that may throw returns \<open>Inl\<close> of the thrown value or \<open>Inr\<close> of its
  result; \<open>try_catch\<close> is \<^verbatim>\<open>try { body } catch (error) { handler }\<close>.
\<close>

datatype error = Thrown string

definition try_catch :: "error + 'a \<Rightarrow> (error \<Rightarrow> error + 'a) \<Rightarrow> error + 'a" where
  "try_catch body handler = (case body of Inl e \<Rightarrow> handler e | Inr v \<Rightarrow> Inr v)"

text \<open>
  What the browser and the imported libraries provide, none of it code of the
  repository: whether the page is in quirks mode, the HTML parser and serialiser, the
  \<open>URL\<close> constructor (which throws on an address it cannot parse), the clock, the
  library calls \<open>defuddle\<close> and
  \<open>DOMPurify.sanitize\<close>, each of which may throw, and the parts of the conversion
  library that the converter does not set itself.

  A rule of the conversion library has a filter and a replacement.  The replacement is
  given the converted content of the element and the element; a rule of the converter
  also calls the service it belongs to, so the replacement is given that service too.

  Of the conversion library the environment has: \<open>root_node\<close>, the child nodes of the
  tree it makes of its input (parsed by the library, white space collapsed);
  \<open>isBlank\<close>, its test for an element without content; \<open>flankingWhitespace\<close>, the
  white space it puts before and after the replacement of an element, for which it looks
  at the element and its siblings; \<open>text_replacement\<close>, what it makes of the text of a
  text node, inside a \<open>code\<close> element or not; \<open>library_rules\<close>, its own rules and
  those of its plugin, in the order in which it asks them; \<open>keep_rules\<close>, the rules for
  what its plugin keeps as markup; \<open>blank_rule\<close> and \<open>default_rule\<close>; and \<open>call_depth\<close>,
  how deep calls of the service from inside a rule can nest before the stack of the
  engine is exhausted.
\<close>

record rule =
  rule_filter :: "node \<Rightarrow> bool"
  rule_replacement :: "(string \<Rightarrow> error + string) \<Rightarrow> string \<Rightarrow> node \<Rightarrow> error + string"

record url_record =
  href :: string
  hostname :: string

record defuddled =
  res_textContent :: string
  res_innerHTML :: string

record host =
  quirks_mode :: bool
  parseHTML :: "string \<Rightarrow> node list"
  serializeHTML :: "node list \<Rightarrow> string"
  newURL :: "string \<Rightarrow> string option \<Rightarrow> error + url_record"
  now_iso :: string
  defuddle :: "document \<Rightarrow> error + defuddled option"
  sanitize :: "string \<Rightarrow> error + string"
  root_node :: "string \<Rightarrow> node list"
  isBlank :: "node \<Rightarrow> bool"
  flankingWhitespace :: "node list \<Rightarrow> node \<Rightarrow> node list \<Rightarrow> string \<times> string"
  text_replacement :: "bool \<Rightarrow> string \<Rightarrow> string"
  library_rules :: "rule list"
  keep_rules :: "rule list"
  blank_rule :: rule
  default_rule :: rule
  call_depth :: nat

text \<open>\<open>element.innerHTML\<close> and \<open>element.outerHTML\<close>\<close>

definition innerHTML :: "host \<Rightarrow> node \<Rightarrow> string" where
  "innerHTML h n = serializeHTML h (childNodes n)"

definition outerHTML :: "host \<Rightarrow> node \<Rightarrow> string" where
  "outerHTML h n = serializeHTML h [n]"

section \<open>The extractor (utils/content-extractor.ts)\<close>

record ExtractedContent =
  title :: string
  content :: string
  author :: string
  description :: string
  url :: string
  domain :: string
  timestamp :: string
  wordCount :: nat
  excerpt :: string

text \<open>
  \<^verbatim>\<open>function getDomain(url) { try { return new URL(url).hostname; } catch { return 'unknown'; } }\<close>
\<close>

definition getDomain :: "host \<Rightarrow> string \<Rightarrow> error + string" where
  "getDomain h u =
     try_catch (case newURL h u None of Inl e \<Rightarrow> Inl e | Inr parsed \<Rightarrow> Inr (hostname parsed))
               (\<lambda>e. Inr ''unknown'')"

text \<open>\<open>extractMetaContent(name)\<close>: \<^verbatim>\<open>meta?.getAttribute('content') || ''\<close> of the first
  \<^verbatim>\<open>meta[name="..."], meta[property="..."]\<close>.\<close>

definition extractMetaContent :: "document \<Rightarrow> string \<Rightarrow> string" where
  "extractMetaContent d name =
     (case doc_querySelector d (Either (TagAttrEq ''meta'' ''name'' name)
                                       (TagAttrEq ''meta'' ''property'' name)) of
        None \<Rightarrow> []
      | Some meta \<Rightarrow> or_else (getAttribute meta ''content'') [])"

definition author_selectors :: "selector list" where
  "author_selectors =
     [TagAttrEq ''meta'' ''name'' ''author'',
      TagAttrEq ''meta'' ''property'' ''article:author'',
      TagAttrEq ''meta'' ''name'' ''twitter:creator'',
      AttrEq ''rel'' ''author'',
      Class ''author'',
      Class ''byline'',
      Class ''post-author'']"

text \<open>The loop of \<open>extractAuthor\<close> over the selectors left to try.\<close>

fun extractAuthor_from :: "document \<Rightarrow> selector list \<Rightarrow> string" where
  "extractAuthor_from d [] = []"
| "extractAuthor_from d (sel # sels) =
     (case doc_querySelector d sel of
        None \<Rightarrow> extractAuthor_from d sels
      | Some element \<Rightarrow>
          (let c = or_else (getAttribute element ''content'') (textContent element)
           in if trim c \<noteq> [] then trim c else extractAuthor_from d sels))"

definition extractAuthor :: "bool \<Rightarrow> document \<Rightarrow> string" where
  "extractAuthor quirks d = extractAuthor_from d (map (as_read quirks) author_selectors)"

definition extractDescription :: "document \<Rightarrow> string" where
  "extractDescription d =
     (if extractMetaContent d ''description'' \<noteq> [] then extractMetaContent d ''description''
      else if extractMetaContent d ''og:description'' \<noteq> []
        then extractMetaContent d ''og:description''
      else if extractMetaContent d ''twitter:description'' \<noteq> []
        then extractMetaContent d ''twitter:description''
      else [])"

text \<open>\<open>s.lastIndexOf(c)\<close>, which is \<open>-1\<close> when \<open>c\<close> does not occur.\<close>

definition lastIndexOf :: "string \<Rightarrow> char \<Rightarrow> int" where
  "lastIndexOf s c =
     (if c \<in> set s then int (length s) - 1 - int (length (takeWhile (\<lambda>x. x \<noteq> c) (rev s)))
      else - 1)"

text \<open>
  \<^verbatim>\<open>
  function createExcerpt(text, maxLength = 200) {
    const cleanText = text.replace(/\s+/g, ' ').trim();
    if (cleanText.length <= maxLength) return cleanText;
    const truncated = cleanText.substring(0, maxLength);
    const lastSpace = truncated.lastIndexOf(' ');
    return lastSpace > 0 ? truncated.substring(0, lastSpace) + '...' : truncated + '...';
  }\<close>
\<close>

definition createExcerpt :: "string \<Rightarrow> nat \<Rightarrow> string" where
  "createExcerpt t maxLength =
     (let cleanText = trim (collapse_ws t) in
      if length cleanText \<le> maxLength then cleanText
      else (let truncated = take maxLength cleanText;
                lastSpace = lastIndexOf truncated (CHR '' '')
            in if 0 < lastSpace then take (nat lastSpace) truncated @ ''...''
               else truncated @ ''...''))"

text \<open>\<open>document.body.innerHTML\<close> and \<open>document.body.textContent\<close>\<close>

definition body_innerHTML :: "host \<Rightarrow> document \<Rightarrow> error + string" where
  "body_innerHTML h d =
     (case doc_body d of None \<Rightarrow> Inl (Thrown ''TypeError'') | Some b \<Rightarrow> Inr (innerHTML h b))"

definition body_textContent :: "document \<Rightarrow> error + string" where
  "body_textContent d =
     (case doc_body d of None \<Rightarrow> Inl (Thrown ''TypeError'') | Some b \<Rightarrow> Inr (textContent b))"

text \<open>The markup handed to the sanitiser: what the library found
  (\<^verbatim>\<open>if (result && result.textContent) content = result.innerHTML || result.textContent\<close>),
  or the body's markup when that is empty or shorter than 100 characters
  (\<^verbatim>\<open>content = document.body.innerHTML\<close>).\<close>

definition chosen_content :: "host \<Rightarrow> document \<Rightarrow> defuddled option \<Rightarrow> error + string" where
  "chosen_content h d result =
     (let c0 = (case result of
                  None \<Rightarrow> []
                | Some r \<Rightarrow> if res_textContent r \<noteq> []
                            then (if res_innerHTML r \<noteq> [] then res_innerHTML r
                                  else res_textContent r)
                            else [])
      in if c0 = [] \<or> length (trim c0) < 100 then body_innerHTML h d else Inr c0)"

text \<open>The body of the \<open>try\<close> block of \<open>extractPageContent\<close>: the library call,
  sanitising, and the record with the word count and excerpt of the sanitised markup's
  text.\<close>

definition extract_try ::
  "host \<Rightarrow> document \<Rightarrow> string \<Rightarrow> string \<Rightarrow> string \<Rightarrow> string \<Rightarrow> string \<Rightarrow> string
     \<Rightarrow> error + ExtractedContent" where
  "extract_try h d u ttl ts dmn auth descr =
     (case defuddle h d of
        Inl e \<Rightarrow> Inl e
      | Inr result \<Rightarrow>
          (case chosen_content h d result of
             Inl e \<Rightarrow> Inl e
           | Inr c1 \<Rightarrow>
               (case sanitize h c1 of
                  Inl e \<Rightarrow> Inl e
                | Inr c \<Rightarrow>
                    (let plainText = text_of_list (parseHTML h c)
                     in Inr \<lparr> title = ttl, content = c, author = auth, description = descr,
                              url = u, domain = dmn, timestamp = ts,
                              wordCount = countWords plainText,
                              excerpt = createExcerpt plainText 200 \<rparr>))))"

text \<open>
  The \<open>catch\<close> block: the record built from the body's text and markup.
  \<^verbatim>\<open>
  } catch (error) {
    const bodyText = document.body.textContent || '';
    const wordCount = countWords(bodyText);
    const excerpt = createExcerpt(bodyText);
    return { title, content: document.body.innerHTML, author, description, url, domain,
             timestamp, wordCount, excerpt };
  }\<close>
  Nothing guards its reads of \<open>document.body\<close>.
\<close>

definition extract_fallback ::
  "host \<Rightarrow> document \<Rightarrow> string \<Rightarrow> string \<Rightarrow> string \<Rightarrow> string \<Rightarrow> string \<Rightarrow> string
     \<Rightarrow> error + ExtractedContent" where
  "extract_fallback h d u ttl ts dmn auth descr =
     (case body_textContent d of
        Inl e \<Rightarrow> Inl e
      | Inr bodyText \<Rightarrow>
          (case body_innerHTML h d of
             Inl e \<Rightarrow> Inl e
           | Inr markup \<Rightarrow>
               Inr \<lparr> title = ttl, content = markup, author = auth,
                       description = descr, url = u, domain = dmn, timestamp = ts,
                       wordCount = countWords bodyText,
                       excerpt = createExcerpt bodyText 200 \<rparr>))"

text \<open>\<open>extractPageContent()\<close>, with \<open>window.location.href\<close> as \<open>u\<close>.\<close>

definition extractPageContent :: "host \<Rightarrow> document \<Rightarrow> string \<Rightarrow> error + ExtractedContent" where
  "extractPageContent h d u =
     (let ttl = (if doc_title d \<noteq> [] then doc_title d else ''Untitled'');
          ts = now_iso h
      in case getDomain h u of
           Inl e \<Rightarrow> Inl e
         | Inr dmn \<Rightarrow>
             (let auth = extractAuthor (quirks_mode h) d;
                  descr = extractDescription d
              in try_catch (extract_try h d u ttl ts dmn auth descr)
                           (\<lambda>e. extract_fallback h d u ttl ts dmn auth descr)))"


section \<open>The converter (utils/markdown-converter.ts)\<close>

subsection \<open>Its regular expressions\<close>

abbreviation DQ :: char where "DQ \<equiv> CHR 0x22"
abbreviation BSL :: char where "BSL \<equiv> CHR 0x5C"

text \<open>\<^verbatim>\<open>s.replace(/"/g, '\\"')\<close>: a backslash before every double quote.\<close>

fun escape_quotes :: "string \<Rightarrow> string" where
  "escape_quotes [] = []"
| "escape_quotes (c # cs) = (if c = DQ then BSL # DQ # escape_quotes cs else c # escape_quotes cs)"

text \<open>\<^verbatim>\<open>s.replace(/<[^>]*>/g, '')\<close>: from a \<open><\<close> up to the next \<open>>\<close>; a \<open><\<close> with no
  \<open>>\<close> after it stays.\<close>

function strip_tags :: "string \<Rightarrow> string" where
  "strip_tags [] = []"
| "strip_tags (c # cs) =
     (if c = CHR ''<'' \<and> CHR ''>'' \<in> set cs
      then strip_tags (tl (dropWhile (\<lambda>x. x \<noteq> CHR ''>'') cs))
      else c # strip_tags cs)"
  by pat_completeness auto
termination
proof (relation "measure length")
  fix c :: char and cs :: string
  have "length (tl (dropWhile (\<lambda>x. x \<noteq> CHR ''>'') cs)) \<le> length cs"
    using length_dropWhile_le [of "\<lambda>x. x \<noteq> CHR ''>''" cs] by simp
  then show "(tl (dropWhile (\<lambda>x. x \<noteq> CHR ''>'') cs), c # cs) \<in> measure length"
    by simp
qed simp_all

text \<open>\<^verbatim>\<open>s.replace(/\[]\([^)]*\)/g, '')\<close>: \<open>[](\<close> up to the next \<open>)\<close>.\<close>

function remove_empty_links :: "string \<Rightarrow> string" where
  "remove_empty_links [] = []"
| "remove_empty_links (c # cs) =
     (if startsWith (c # cs) ''[]('' \<and> CHR '')'' \<in> set (drop 2 cs)
      then remove_empty_links (tl (dropWhile (\<lambda>x. x \<noteq> CHR '')'') (drop 2 cs)))
      else c # remove_empty_links cs)"
  by pat_completeness auto
termination
proof (relation "measure length")
  fix c :: char and cs :: string
  have "length (dropWhile (\<lambda>x. x \<noteq> CHR '')'') (drop 2 cs)) \<le> length (drop 2 cs)"
    by (rule length_dropWhile_le)
  then have "length (tl (dropWhile (\<lambda>x. x \<noteq> CHR '')'') (drop 2 cs))) \<le> length cs"
    by simp
  then show "(tl (dropWhile (\<lambda>x. x \<noteq> CHR '')'') (drop 2 cs)), c # cs) \<in> measure length"
    by simp
qed simp_all

text \<open>
  \<^verbatim>\<open>s.replace(/!\[([^\]]*)\]\(([^)]+)\)\s*\n\s*\n/g, '![$1]($2)\n\n')\<close>.
  \<open>image_match s\<close> says whether the expression matches at the start of \<open>s\<close>: an image
  \<open>![alt](src)\<close> with a non-empty \<open>src\<close>, followed by white space that holds at
  least two line feeds; the match ends with the last line feed of that white space.  It
  returns the replacement and the number of characters matched.
\<close>

definition image_match :: "string \<Rightarrow> (string \<times> nat) option" where
  "image_match s =
     (if \<not> startsWith s ''!['' then None
      else (let alt = takeWhile (\<lambda>x. x \<noteq> CHR '']'') (drop 2 s);
                r1 = dropWhile (\<lambda>x. x \<noteq> CHR '']'') (drop 2 s)
            in if \<not> startsWith r1 ''](''  then None
               else (let src = takeWhile (\<lambda>x. x \<noteq> CHR '')'') (drop 2 r1);
                         r2 = dropWhile (\<lambda>x. x \<noteq> CHR '')'') (drop 2 r1)
                     in if src = [] \<or> r2 = [] then None
                        else (let w = takeWhile is_ws (tl r2);
                                  upto = length w - length (takeWhile (\<lambda>x. x \<noteq> NL) (rev w))
                              in if length (filter (\<lambda>x. x = NL) w) < 2 then None
                                 else Some (''!['' @ alt @ '']('' @ src @ '')'' @ [NL, NL],
                                            2 + length alt + 2 + length src + 1 + upto)))))"

function fix_image_spacing :: "string \<Rightarrow> string" where
  "fix_image_spacing [] = []"
| "fix_image_spacing (c # cs) =
     (case image_match (c # cs) of
        None \<Rightarrow> c # fix_image_spacing cs
      | Some (replacement, n) \<Rightarrow> replacement @ fix_image_spacing (drop (n - 1) cs))"
  by pat_completeness auto
termination
  by (relation "measure length") (auto simp: less_Suc_eq_le)

subsection \<open>The metadata header\<close>

text \<open>A number in a template string: its decimal digits.\<close>

function show_nat :: "nat \<Rightarrow> string" where
  "show_nat n = (if n < 10 then [char_of (48 + n)]
                 else show_nat (n div 10) @ [char_of (48 + n mod 10)])"
  by pat_completeness auto
termination
  by (relation "measure id") auto

declare show_nat.simps [simp del]

text \<open>\<open>xs.filter(Boolean)\<close> on an array of strings and \<open>null\<close>s: \<open>null\<close> and the
  empty string go.\<close>

fun filter_Boolean :: "string option list \<Rightarrow> string list" where
  "filter_Boolean [] = []"
| "filter_Boolean (None # xs) = filter_Boolean xs"
| "filter_Boolean (Some s # xs) = (if s = [] then filter_Boolean xs else s # filter_Boolean xs)"

text \<open>
  \<^verbatim>\<open>
  const frontmatter = [
    '---',
    `url: "${data.url}"`,
    `title: "${data.title.replace(/"/g, '\\"')}"`,
    `timestamp: "${data.timestamp}"`,
    `domain: "${data.domain}"`,
    data.author ? `author: "${data.author.replace(/"/g, '\\"')}"` : null,
    data.description ? `description: "${data.description.replace(/"/g, '\\"')}"` : null,
    `word_count: ${data.wordCount}`,
    data.excerpt ? `excerpt: "${data.excerpt.replace(/"/g, '\\"')}"` : null,
    '---',
    ''
  ].filter(Boolean).join('\n');\<close>
\<close>

definition quoted :: "string \<Rightarrow> string" where
  "quoted s = DQ # s @ [DQ]"

definition frontmatter_array :: "ExtractedContent \<Rightarrow> string option list" where
  "frontmatter_array data =
     [Some ''---'',
      Some (''url: '' @ quoted (url data)),
      Some (''title: '' @ quoted (escape_quotes (title data))),
      Some (''timestamp: '' @ quoted (timestamp data)),
      Some (''domain: '' @ quoted (domain data)),
      (if author data \<noteq> [] then Some (''author: '' @ quoted (escape_quotes (author data)))
       else None),
      (if description data \<noteq> []
       then Some (''description: '' @ quoted (escape_quotes (description data))) else None),
      Some (''word_count: '' @ show_nat (wordCount data)),
      (if excerpt data \<noteq> [] then Some (''excerpt: '' @ quoted (escape_quotes (excerpt data)))
       else None),
      Some ''---'',
      Some []]"

definition frontmatter_lines :: "ExtractedContent \<Rightarrow> string list" where
  "frontmatter_lines data = filter_Boolean (frontmatter_array data)"

definition createFrontmatter :: "ExtractedContent \<Rightarrow> string" where
  "createFrontmatter data = join [NL] (frontmatter_lines data)"

subsection \<open>Absolute addresses\<close>

text \<open>\<open>setAttribute\<close> on the attribute list of an element.\<close>

fun set_attr :: "string \<Rightarrow> string \<Rightarrow> (string \<times> string) list \<Rightarrow> (string \<times> string) list" where
  "set_attr k v [] = [(k, v)]"
| "set_attr k v ((k', w) # as) = (if k' = k then (k, v) # as else (k', w) # set_attr k v as)"

text \<open>A change of attributes applied to every element of a tree, which is what
  \<open>querySelectorAll(...).forEach(el => el.setAttribute(...))\<close> amounts to when the
  change looks at the element alone.\<close>

fun map_attrs ::
  "(string \<Rightarrow> (string \<times> string) list \<Rightarrow> (string \<times> string) list) \<Rightarrow> node \<Rightarrow> node" where
  "map_attrs f (Element t as ks) = Element t (f t as) (map (map_attrs f) ks)"
| "map_attrs f n = n"

text \<open>The two loops of \<open>processUrls\<close>: an address that \<open>new URL(href, baseUrl)\<close>
  rejects is left as it is.\<close>

definition absolute_link :: "host \<Rightarrow> string \<Rightarrow> string \<Rightarrow> (string \<times> string) list \<Rightarrow> (string \<times> string) list" where
  "absolute_link h baseUrl t as =
     (if t \<noteq> ''a'' then as
      else case map_of as ''href'' of
        None \<Rightarrow> as
      | Some hr \<Rightarrow>
          if hr \<noteq> [] \<and> \<not> startsWith hr ''http'' \<and> \<not> startsWith hr ''mailto:''
             \<and> \<not> startsWith hr ''#''
          then (case newURL h hr (Some baseUrl) of
                  Inr absoluteUrl \<Rightarrow> set_attr ''href'' (href absoluteUrl) as
                | Inl e \<Rightarrow> as)
          else as)"

definition absolute_image :: "host \<Rightarrow> string \<Rightarrow> string \<Rightarrow> (string \<times> string) list \<Rightarrow> (string \<times> string) list" where
  "absolute_image h baseUrl t as =
     (if t \<noteq> ''img'' then as
      else case map_of as ''src'' of
        None \<Rightarrow> as
      | Some sr \<Rightarrow>
          if sr \<noteq> [] \<and> \<not> startsWith sr ''http'' \<and> \<not> startsWith sr ''data:''
          then (case newURL h sr (Some baseUrl) of
                  Inr absoluteUrl \<Rightarrow> set_attr ''src'' (href absoluteUrl) as
                | Inl e \<Rightarrow> as)
          else as)"

definition processUrls :: "host \<Rightarrow> string \<Rightarrow> string \<Rightarrow> string" where
  "processUrls h html baseUrl =
     serializeHTML h
       (map (map_attrs (absolute_image h baseUrl))
            (map (map_attrs (absolute_link h baseUrl)) (parseHTML h html)))"

subsection \<open>The rules of the converter\<close>

text \<open>
  \<^verbatim>\<open>
  turndownService.addRule('figure', {
    filter: 'figure',
    replacement: function(content, node) {
      const figure = node as HTMLElement;
      const img = figure.querySelector('img');
      const figcaption = figure.querySelector('figcaption');
      if (!img) return content;
      const alt = img.getAttribute('alt') || '';
      const src = img.getAttribute('src') || '';
      let caption = '';
      if (figcaption) { caption = turndownService.turndown(figcaption.innerHTML); }
      return `![${alt}](${src})\n\n${caption ? `*${caption}*\n\n` : ''}`;
    }
  });\<close>
\<close>

definition figure_rule :: "host \<Rightarrow> rule" where
  "figure_rule h =
     \<lparr> rule_filter = (\<lambda>node. tag_of node = Some ''figure''),
       rule_replacement = (\<lambda>svc cont figure.
         case querySelector figure (Tag ''img'') of
           None \<Rightarrow> Inr cont
         | Some img \<Rightarrow>
             (case (case querySelector figure (Tag ''figcaption'') of
                      None \<Rightarrow> Inr []
                    | Some figcaption \<Rightarrow> svc (innerHTML h figcaption)) of
                Inl e \<Rightarrow> Inl e
              | Inr caption \<Rightarrow>
                  Inr (''!['' @ or_else (getAttribute img ''alt'') [] @ '']('' @
                       or_else (getAttribute img ''src'') [] @ '')'' @ [NL, NL] @
                       (if caption \<noteq> [] then ''*'' @ caption @ ''*'' @ [NL, NL] else [])))) \<rparr>"

text \<open>
  \<^verbatim>\<open>
  turndownService.addRule('highlight', {
    filter: 'mark',
    replacement: function(content) { return `==${content}==`; }
  });
  turndownService.addRule('strikethrough', {
    filter: ['del', 's', 'strike'],
    replacement: function(content) { return `~~${content}~~`; }
  });\<close>
\<close>

definition highlight_rule :: rule where
  "highlight_rule =
     \<lparr> rule_filter = (\<lambda>node. tag_of node = Some ''mark''),
       rule_replacement = (\<lambda>svc cont node. Inr (''=='' @ cont @ ''=='')) \<rparr>"

definition strikethrough_rule :: rule where
  "strikethrough_rule =
     \<lparr> rule_filter = (\<lambda>node. tag_of node = Some ''del'' \<or> tag_of node = Some ''s''
                                \<or> tag_of node = Some ''strike''),
       rule_replacement = (\<lambda>svc cont node. Inr (''~~'' @ cont @ ''~~'')) \<rparr>"

text \<open>
  \<^verbatim>\<open>className.match(/language-(\w+)/)\<close>: the word characters after the first
  \<open>language-\<close> that has one after it; the empty string when there is no match.
\<close>

definition is_word_char :: "char \<Rightarrow> bool" where
  "is_word_char c =
     (c \<in> set (''abcdefghijklmnopqrstuvwxyz'' @ ''ABCDEFGHIJKLMNOPQRSTUVWXYZ''
               @ ''0123456789'' @ ''_''))"

fun language_match :: "string \<Rightarrow> string" where
  "language_match [] = []"
| "language_match (c # cs) =
     (if startsWith (c # cs) ''language-'' \<and> takeWhile is_word_char (drop 9 (c # cs)) \<noteq> []
      then takeWhile is_word_char (drop 9 (c # cs))
      else language_match cs)"

text \<open>
  \<^verbatim>\<open>
  turndownService.addRule('preformattedCode', {
    filter: function(node) { return node.nodeName === 'PRE' && node.querySelector('code'); },
    replacement: function(content, node) {
      const codeElement = (node as HTMLElement).querySelector('code');
      if (!codeElement) return content;
      const className = codeElement.className || '';
      const languageMatch = className.match(/language-(\w+)/);
      const language = languageMatch ? languageMatch[1] : '';
      const code = codeElement.textContent || '';
      return `\n\`\`\`${language}\n${code}\n\`\`\`\n`;
    }
  });\<close>
\<close>

definition preformattedCode_rule :: rule where
  "preformattedCode_rule =
     \<lparr> rule_filter = (\<lambda>node. tag_of node = Some ''pre''
                                \<and> querySelector node (Tag ''code'') \<noteq> None),
       rule_replacement = (\<lambda>svc cont node.
         case querySelector node (Tag ''code'') of
           None \<Rightarrow> Inr cont
         | Some codeElement \<Rightarrow>
             Inr ([NL] @ ''```'' @ language_match (or_else (getAttribute codeElement ''class'') [])
                  @ [NL] @ textContent codeElement @ [NL] @ ''```'' @ [NL])) \<rparr>"

text \<open>
  \<^verbatim>\<open>
  turndownService.addRule('table', {
    filter: 'table',
    replacement: function(content, node) {
      const table = node as HTMLTableElement;
      const hasComplexStructure = Array.from(table.querySelectorAll('td, th')).some(cell =>
        cell.hasAttribute('colspan') || cell.hasAttribute('rowspan'));
      if (hasComplexStructure) { return `\n\n${table.outerHTML}\n\n`; }
      return content;
    }
  });\<close>
  \<open>content\<close> is what the service made of the table's children.
\<close>

definition table_filter :: "node \<Rightarrow> bool" where
  "table_filter n = (tag_of n = Some ''table'')"

definition hasComplexStructure :: "node \<Rightarrow> bool" where
  "hasComplexStructure table =
     list_ex (\<lambda>cell. hasAttribute cell ''colspan'' \<or> hasAttribute cell ''rowspan'')
             (querySelectorAll table (Either (Tag ''td'') (Tag ''th'')))"

definition table_replacement :: "host \<Rightarrow> string \<Rightarrow> node \<Rightarrow> string" where
  "table_replacement h cont table =
     (if hasComplexStructure table then [NL, NL] @ outerHTML h table @ [NL, NL] else cont)"

definition table_rule :: "host \<Rightarrow> rule" where
  "table_rule h =
     \<lparr> rule_filter = table_filter,
       rule_replacement = (\<lambda>svc cont table. Inr (table_replacement h cont table)) \<rparr>"

text \<open>
  \<open>addRule\<close> puts a rule in front of the rules the service has, so the rule added last
  is asked first: the rules of the converter in the order in which the service asks
  them.  They come before every rule of the library and of its plugin, which were there
  when the first of them was added.
\<close>

definition custom_rules :: "host \<Rightarrow> rule list" where
  "custom_rules h =
     [table_rule h, preformattedCode_rule, strikethrough_rule, highlight_rule, figure_rule h]"

text \<open>\<^verbatim>\<open>turndownService.remove(['script', 'style', 'nav', 'header', 'footer']);\<close>\<close>

definition removed_tags :: "string list" where
  "removed_tags = [''script'', ''style'', ''nav'', ''header'', ''footer'']"

definition remove_rule :: rule where
  "remove_rule =
     \<lparr> rule_filter = (\<lambda>node. case tag_of node of None \<Rightarrow> False
                                | Some t \<Rightarrow> t \<in> set removed_tags),
       rule_replacement = (\<lambda>svc cont node. Inr []) \<rparr>"

subsection \<open>The service\<close>

text \<open>
  The service the converter sets up and calls is the library's; its way through the
  tree (the functions \<open>process\<close>, \<open>replacementForNode\<close>, \<open>join\<close> and \<open>postProcess\<close> of
  the library, and \<open>forNode\<close> of its rules) is written out here so that the rules above
  are part of what \<open>turndown\<close> returns.

  The rule for an element (\<open>forNode\<close>): the library's blank rule for an element it takes
  for blank; else the first rule whose filter accepts the element, among the added rules
  and then the library's; else the first accepting rule to keep; else the rule to remove;
  else the library's default rule.
\<close>

definition find_rule :: "rule list \<Rightarrow> node \<Rightarrow> rule option" where
  "find_rule rules node = find (\<lambda>r. rule_filter r node) rules"

definition forNode :: "host \<Rightarrow> node \<Rightarrow> rule" where
  "forNode h node =
     (if isBlank h node then blank_rule h
      else case find_rule (custom_rules h @ library_rules h) node of
        Some r \<Rightarrow> r
      | None \<Rightarrow>
          (case find_rule (keep_rules h) node of
             Some r \<Rightarrow> r
           | None \<Rightarrow> if rule_filter remove_rule node then remove_rule else default_rule h))"

text \<open>
  Two pieces of output are joined (\<open>join\<close>) with the line feeds at the seam replaced by
  as many as the longer of the two runs had, two at most.
\<close>

definition trimTrailingNewlines :: "string \<Rightarrow> string" where
  "trimTrailingNewlines s = rev (dropWhile (\<lambda>c. c = NL) (rev s))"

definition trimLeadingNewlines :: "string \<Rightarrow> string" where
  "trimLeadingNewlines s = dropWhile (\<lambda>c. c = NL) s"

definition join_output :: "string \<Rightarrow> string \<Rightarrow> string" where
  "join_output output replacement =
     (let s1 = trimTrailingNewlines output;
          s2 = trimLeadingNewlines replacement;
          nls = max (length output - length s1) (length replacement - length s2)
      in s1 @ take nls [NL, NL] @ s2)"

text \<open>
  \<open>process\<close> converts the child nodes of a node from left to right: a text node becomes
  what the library makes of its text (\<open>code\<close> says whether the node is inside a \<open>code\<close>
  element), an element the replacement of its rule, any other node nothing.
  \<open>replacementForNode\<close> converts the children of the element first and hands the result,
  trimmed when the element has white space on a flank, to the rule; the flanking white
  space goes around what the rule returns.  \<open>lefts\<close> and \<open>rights\<close> are the siblings of the
  node, which the library looks at for the flanking white space.
\<close>

fun process ::
    "(string \<Rightarrow> error + string) \<Rightarrow> host \<Rightarrow> bool \<Rightarrow> string \<Rightarrow> node list \<Rightarrow> node list
       \<Rightarrow> error + string"
  and replacementForNode ::
    "(string \<Rightarrow> error + string) \<Rightarrow> host \<Rightarrow> bool \<Rightarrow> node list
       \<Rightarrow> string \<Rightarrow> (string \<times> string) list \<Rightarrow> node list \<Rightarrow> node list \<Rightarrow> error + string"
where
  "process svc h code output lefts [] = Inr output"
| "process svc h code output lefts (Text s # rights) =
     process svc h code (join_output output (text_replacement h code s))
       (lefts @ [Text s]) rights"
| "process svc h code output lefts (Comment s # rights) =
     process svc h code (join_output output []) (lefts @ [Comment s]) rights"
| "process svc h code output lefts (Element t as ks # rights) =
     (case replacementForNode svc h code lefts t as ks rights of
        Inl e \<Rightarrow> Inl e
      | Inr replacement \<Rightarrow>
          process svc h code (join_output output replacement)
            (lefts @ [Element t as ks]) rights)"
| "replacementForNode svc h code lefts t as ks rights =
     (case process svc h (code \<or> t = ''code'') [] [] ks of
        Inl e \<Rightarrow> Inl e
      | Inr cont \<Rightarrow>
          (let whitespace = flankingWhitespace h lefts (Element t as ks) rights;
               cont' = (if fst whitespace \<noteq> [] \<or> snd whitespace \<noteq> [] then trim cont
                        else cont)
           in case rule_replacement (forNode h (Element t as ks)) svc cont'
                     (Element t as ks) of
                Inl e \<Rightarrow> Inl e
              | Inr replacement \<Rightarrow> Inr (fst whitespace @ replacement @ snd whitespace)))"

text \<open>At the end the output loses the tabs, carriage returns and line feeds at its start
  and the white space at its end
  (\<^verbatim>\<open>output.replace(/^[\t\r\n]+/, '').replace(/[\t\r\n\s]+$/, '')\<close>); none of the
  rules above has anything to append.\<close>

definition postProcess :: "string \<Rightarrow> string" where
  "postProcess output =
     rev (dropWhile is_ws
            (rev (dropWhile (\<lambda>c. c = CHR 0x09 \<or> c = CHR 0x0D \<or> c = NL) output)))"

text \<open>
  \<open>turndownService.turndown(input)\<close>: the empty string for the empty string, else the
  conversion of the tree the library makes of the input.  A rule may call the service
  again (the figure rule does, on the markup of the caption); the engine's stack bounds
  how deep such calls nest, and a call beyond it throws a \<open>RangeError\<close>.
\<close>

fun service :: "nat \<Rightarrow> host \<Rightarrow> string \<Rightarrow> error + string" where
  "service 0 h input = Inl (Thrown ''RangeError'')"
| "service (Suc k) h input =
     (if input = [] then Inr []
      else case process (service k h) h False [] [] (root_node h input) of
        Inl e \<Rightarrow> Inl e
      | Inr output \<Rightarrow> Inr (postProcess output))"

definition turndown :: "host \<Rightarrow> string \<Rightarrow> error + string" where
  "turndown h = service (Suc (call_depth h)) h"

subsection \<open>convertToMarkdown\<close>

text \<open>
  \<^verbatim>\<open>
  const processedHtml = processUrls(data.content, data.url);
  try {
    let markdown = turndownService.turndown(processedHtml);
    markdown = markdown.replace(/\n{3,}/g, '\n\n');
    markdown = markdown.replace(/\[]\([^)]*\)/g, '');
    markdown = markdown.replace(/!\[([^\]]*)\]\(([^)]+)\)\s*\n\s*\n/g, '![$1]($2)\n\n');
    const frontmatter = createFrontmatter(data);
    return frontmatter + '\n' + markdown.trim();
  } catch (error) {
    const frontmatter = createFrontmatter(data);
    const fallbackContent = data.content.replace(/<[^>]*>/g, '').replace(/\s+/g, ' ').trim();
    return frontmatter + '\n' + fallbackContent;
  }\<close>
\<close>

definition cleanup_markdown :: "string \<Rightarrow> string" where
  "cleanup_markdown markdown = fix_image_spacing (remove_empty_links (collapse_newlines markdown))"

definition fallbackContent :: "ExtractedContent \<Rightarrow> string" where
  "fallbackContent data = trim (collapse_ws (strip_tags (content data)))"

definition convertToMarkdown :: "host \<Rightarrow> ExtractedContent \<Rightarrow> error + string" where
  "convertToMarkdown h data =
     (let processedHtml = processUrls h (content data) (url data)
      in try_catch
           (case turndown h processedHtml of
              Inl e \<Rightarrow> Inl e
            | Inr markdown \<Rightarrow>
                Inr (createFrontmatter data @ [NL] @ trim (cleanup_markdown markdown)))
           (\<lambda>e. Inr (createFrontmatter data @ [NL] @ fallbackContent data)))"


section \<open>The content script (content.js)\<close>

subsection \<open>getTitle\<close>

text \<open>\<open>element.content\<close>: for a \<open>meta\<close> element its \<open>content\<close> attribute, the empty
  string when it has none; for a \<open>template\<close> element the document fragment that holds
  the template's contents, an object; other elements have no such property.\<close>

datatype content_value = Undefined | ContentString string | ContentFragment

definition content_property :: "node \<Rightarrow> content_value" where
  "content_property n =
     (if tag_of n = Some ''meta'' then ContentString (or_else (getAttribute n ''content'') [])
      else if tag_of n = Some ''template'' then ContentFragment
      else Undefined)"

definition title_selectors :: "selector list" where
  "title_selectors =
     [Tag ''h1'',
      Tag ''title'',
      AttrEq ''property'' ''og:title'',
      AttrEq ''name'' ''twitter:title'',
      Class ''title'',
      Class ''article-title'']"

text \<open>\<^verbatim>\<open>(element.content || element.textContent || '').trim()\<close>: an object is truthy
  and a document fragment has no \<open>trim\<close>, so on a \<open>template\<close> element the call throws a
  \<open>TypeError\<close>.\<close>

definition candidate_text :: "node \<Rightarrow> error + string" where
  "candidate_text element =
     (case content_property element of
        ContentFragment \<Rightarrow> Inl (Thrown ''TypeError'')
      | ContentString s \<Rightarrow> Inr (trim (if s \<noteq> [] then s else textContent element))
      | Undefined \<Rightarrow> Inr (trim (textContent element)))"

text \<open>
  The loop of \<open>getTitle\<close> over the selectors left to try:
  \<^verbatim>\<open>
  for (const selector of selectors) {
    const element = document.querySelector(selector);
    if (element) {
      const title = (element.content || element.textContent || '').trim();
      if (title && title.length > 3) { return title; }
    }
  }
  return document.title || 'Untitled Page';\<close>
\<close>

fun getTitle_from :: "document \<Rightarrow> selector list \<Rightarrow> error + string" where
  "getTitle_from d [] = Inr (if doc_title d \<noteq> [] then doc_title d else ''Untitled Page'')"
| "getTitle_from d (sel # sels) =
     (case doc_querySelector d sel of
        None \<Rightarrow> getTitle_from d sels
      | Some element \<Rightarrow>
          (case candidate_text element of
             Inl e \<Rightarrow> Inl e
           | Inr found \<Rightarrow>
               if found \<noteq> [] \<and> 3 < length found then Inr found
               else getTitle_from d sels))"

text \<open>\<open>getTitle()\<close> on the document \<open>d\<close>, which is in quirks mode or not.\<close>

definition getTitle :: "bool \<Rightarrow> document \<Rightarrow> error + string" where
  "getTitle quirks d = getTitle_from d (map (as_read quirks) title_selectors)"

subsection \<open>countWords\<close>

text \<open>
  \<^verbatim>\<open>
  countWords(html) {
    const temp = document.createElement('div');
    temp.innerHTML = html;
    const text = temp.textContent || temp.innerText || '';
    return text.trim().split(/\s+/).filter(word => word.length > 0).length;
  }\<close>
  The detached \<open>div\<close> renders nothing, so its \<open>innerText\<close> is its \<open>textContent\<close>.
\<close>

definition countWords_html :: "host \<Rightarrow> string \<Rightarrow> nat" where
  "countWords_html h html =
     (let temp = Element ''div'' [] (parseHTML h html)
      in countWords (textContent temp))"

subsection \<open>htmlToSimpleMarkdown and convertToMarkdown\<close>

text \<open>The lines of a list: \<^verbatim>\<open>`${bullet} ${item.textContent.trim()}\n`\<close> for every \<open>li\<close>
  below the list, numbered from \<open>index + 1\<close> in an \<open>ol\<close>.\<close>

fun list_lines :: "bool \<Rightarrow> nat \<Rightarrow> node list \<Rightarrow> string" where
  "list_lines ordered index [] = []"
| "list_lines ordered index (item # items) =
     (if ordered then show_nat (index + 1) @ ''.'' else ''-'') @ '' '' @ trim (textContent item)
       @ [NL] @ list_lines ordered (index + 1) items"

definition heading :: "nat \<Rightarrow> string \<Rightarrow> string" where
  "heading level innerText = [NL] @ replicate level (CHR ''#'') @ '' '' @ innerText @ [NL, NL]"

text \<open>
  \<open>htmlToSimpleMarkdown(element)\<close> appends, for every child node of the element, the text
  of a text node and the rule of an element's tag; \<open>md_of_nodes\<close> is its loop over the
  child nodes and \<open>md_of_node\<close> the body of the loop.  The tag names of the tree are in
  lower case, as \<open>node.tagName.toLowerCase()\<close> is.
\<close>

fun md_of_nodes :: "node list \<Rightarrow> string" and md_of_node :: "node \<Rightarrow> string" where
  "md_of_nodes [] = []"
| "md_of_nodes (n # ns) = md_of_node n @ md_of_nodes ns"
| "md_of_node (Text s) = s"
| "md_of_node (Comment s) = []"
| "md_of_node (Element tagName as ks) =
     (if tagName = ''h1'' then heading 1 (trim (text_of_list ks))
      else if tagName = ''h2'' then heading 2 (trim (text_of_list ks))
      else if tagName = ''h3'' then heading 3 (trim (text_of_list ks))
      else if tagName = ''h4'' then heading 4 (trim (text_of_list ks))
      else if tagName = ''h5'' then heading 5 (trim (text_of_list ks))
      else if tagName = ''h6'' then heading 6 (trim (text_of_list ks))
      else if tagName = ''p'' then [NL] @ md_of_nodes ks @ [NL, NL]
      else if tagName = ''strong'' \<or> tagName = ''b'' then ''**'' @ trim (text_of_list ks) @ ''**''
      else if tagName = ''em'' \<or> tagName = ''i'' then ''*'' @ trim (text_of_list ks) @ ''*''
      else if tagName = ''code'' then ''`'' @ trim (text_of_list ks) @ ''`''
      else if tagName = ''pre''
        then [NL] @ ''```'' @ [NL] @ trim (text_of_list ks) @ [NL] @ ''```'' @ [NL, NL]
      else if tagName = ''a''
        then ''['' @ trim (text_of_list ks) @ '']('' @ or_else (map_of as ''href'') ''#'' @ '')''
      else if tagName = ''img''
        then ''!['' @ or_else (map_of as ''alt'') [] @ '']('' @ or_else (map_of as ''src'') [] @ '')''
      else if tagName = ''br'' then [NL]
      else if tagName = ''hr'' then [NL] @ ''---'' @ [NL, NL]
      else if tagName = ''blockquote'' then [NL] @ ''> '' @ md_of_nodes ks @ [NL, NL]
      else if tagName = ''ul'' \<or> tagName = ''ol''
        then [NL] @ list_lines (tagName = ''ol'') 0
                      (filter (matches (Tag ''li'')) (elements_list ks)) @ [NL]
      else md_of_nodes ks)"

definition htmlToSimpleMarkdown :: "node \<Rightarrow> string" where
  "htmlToSimpleMarkdown element = md_of_nodes (childNodes element)"

text \<open>
  \<^verbatim>\<open>
  markdown = markdown
    // Fix multiple spaces
    .replace(/\s+/g, ' ')
    // Fix multiple newlines
    .replace(/\n{3,}/g, '\n\n')
    // Trim
    .trim();\<close>
\<close>

definition clean_up :: "string \<Rightarrow> string" where
  "clean_up markdown = trim (collapse_newlines (collapse_ws markdown))"

text \<open>\<open>convertToMarkdown(html)\<close> of the content script.\<close>

definition convertToMarkdown_js :: "host \<Rightarrow> string \<Rightarrow> string" where
  "convertToMarkdown_js h html =
     (let temp = Element ''div'' [] (parseHTML h html)
      in clean_up (htmlToSimpleMarkdown temp))"


subsection \<open>getDescription and getAuthor\<close>

definition description_selectors :: "selector list" where
  "description_selectors =
     [AttrEq ''name'' ''description'',
      AttrEq ''property'' ''og:description'',
      AttrEq ''name'' ''twitter:description'',
      Class ''description'',
      Class ''excerpt'',
      Tag ''p'']"

fun getDescription_from :: "document \<Rightarrow> selector list \<Rightarrow> error + string" where
  "getDescription_from d [] = Inr []"
| "getDescription_from d (sel # sels) =
     (case doc_querySelector d sel of
        None \<Rightarrow> getDescription_from d sels
      | Some element \<Rightarrow>
          (case candidate_text element of
             Inl e \<Rightarrow> Inl e
           | Inr found \<Rightarrow>
               if found \<noteq> [] \<and> 10 < length found \<and> length found < 300 then Inr found
               else getDescription_from d sels))"

definition getDescription :: "bool \<Rightarrow> document \<Rightarrow> error + string" where
  "getDescription quirks d = getDescription_from d (map (as_read quirks) description_selectors)"

definition byline_selectors :: "selector list" where
  "byline_selectors =
     [AttrEq ''name'' ''author'',
      AttrEq ''property'' ''article:author'',
      AttrEq ''rel'' ''author'',
      Class ''author'',
      Class ''byline'',
      Class ''writer'']"

fun getAuthor_from :: "document \<Rightarrow> selector list \<Rightarrow> error + string" where
  "getAuthor_from d [] = Inr []"
| "getAuthor_from d (sel # sels) =
     (case doc_querySelector d sel of
        None \<Rightarrow> getAuthor_from d sels
      | Some element \<Rightarrow>
          (case candidate_text element of
             Inl e \<Rightarrow> Inl e
           | Inr found \<Rightarrow>
               if found \<noteq> [] \<and> 2 < length found \<and> length found < 100 then Inr found
               else getAuthor_from d sels))"

definition getAuthor :: "bool \<Rightarrow> document \<Rightarrow> error + string" where
  "getAuthor quirks d = getAuthor_from d (map (as_read quirks) byline_selectors)"

subsection \<open>The store of trees\<close>

text \<open>
  \<open>getMainContent\<close> and \<open>cleanContent\<close> change nodes in place, so for them the nodes live
  in a store: a list of trees, the live document's root element first, every detached
  tree (a clone, a created element) after it.  A reference to a node names its tree and
  the path of child indices from the tree's root.
\<close>

type_synonym store = "node list"
type_synonym ref = "nat \<times> nat list"

fun node_at :: "node \<Rightarrow> nat list \<Rightarrow> node option" where
  "node_at n [] = Some n"
| "node_at (Element t as ks) (i # p) = (if i < length ks then node_at (ks ! i) p else None)"
| "node_at n (i # p) = None"

fun update_at :: "(node \<Rightarrow> node) \<Rightarrow> node \<Rightarrow> nat list \<Rightarrow> node" where
  "update_at f n [] = f n"
| "update_at f (Element t as ks) (i # p) =
     (if i < length ks then Element t as (ks[i := update_at f (ks ! i) p]) else Element t as ks)"
| "update_at f n (i # p) = n"

definition deref :: "store \<Rightarrow> ref \<Rightarrow> node option" where
  "deref st r = (if fst r < length st then node_at (st ! fst r) (snd r) else None)"

text \<open>A change of the node a reference names, in place.\<close>

definition mutate :: "store \<Rightarrow> ref \<Rightarrow> (node \<Rightarrow> node) \<Rightarrow> store" where
  "mutate st r f = (if fst r < length st then st[fst r := update_at f (st ! fst r) (snd r)] else st)"

text \<open>The paths of the elements of a subtree in document order, the root first.\<close>

fun element_paths :: "node \<Rightarrow> nat list list"
  and element_paths_list :: "nat \<Rightarrow> node list \<Rightarrow> nat list list" where
  "element_paths (Text s) = []"
| "element_paths (Comment s) = []"
| "element_paths (Element t as ks) = [] # element_paths_list 0 ks"
| "element_paths_list i [] = []"
| "element_paths_list i (k # ks) = map ((#) i) (element_paths k) @ element_paths_list (Suc i) ks"

definition path_matches :: "selector \<Rightarrow> node \<Rightarrow> nat list \<Rightarrow> bool" where
  "path_matches sel n q = (case node_at n q of None \<Rightarrow> False | Some e \<Rightarrow> matches sel e)"

text \<open>\<open>element.querySelectorAll(sel)\<close> as references: the matching descendants.\<close>

definition ref_querySelectorAll :: "store \<Rightarrow> ref \<Rightarrow> selector \<Rightarrow> ref list" where
  "ref_querySelectorAll st r sel =
     (case deref st r of
        None \<Rightarrow> []
      | Some n \<Rightarrow> map (\<lambda>q. (fst r, snd r @ q))
                     (filter (path_matches sel n) (element_paths_list 0 (childNodes n))))"

text \<open>\<open>document.querySelector(sel)\<close> as a reference into the live document, tree 0.\<close>

definition document_querySelector :: "store \<Rightarrow> selector \<Rightarrow> ref option" where
  "document_querySelector st sel =
     (case st of
        [] \<Rightarrow> None
      | root # _ \<Rightarrow> (case filter (path_matches sel root) (element_paths root) of
                       [] \<Rightarrow> None
                     | q # _ \<Rightarrow> Some (0, q)))"

text \<open>\<open>document.body\<close>: the first \<open>body\<close> or \<open>frameset\<close> child of the root element, or
  \<open>null\<close>.\<close>

fun first_index :: "('a \<Rightarrow> bool) \<Rightarrow> 'a list \<Rightarrow> nat option" where
  "first_index P [] = None"
| "first_index P (x # xs) =
     (if P x then Some 0 else map_option Suc (first_index P xs))"

definition document_body :: "store \<Rightarrow> ref option" where
  "document_body st =
     (case st of
        [] \<Rightarrow> None
      | root # _ \<Rightarrow>
          map_option (\<lambda>i. (0, [i]))
            (first_index (\<lambda>k. tag_of k = Some ''body'' \<or> tag_of k = Some ''frameset'')
                         (childNodes root)))"

text \<open>\<open>node.cloneNode(true)\<close>: a copy of the subtree as a new detached tree; on \<open>null\<close>
  the call throws.\<close>

definition cloneNode :: "store \<Rightarrow> ref option \<Rightarrow> (error + ref) \<times> store" where
  "cloneNode st r =
     (case r of
        None \<Rightarrow> (Inl (Thrown ''TypeError''), st)
      | Some r' \<Rightarrow> (case deref st r' of
                      None \<Rightarrow> (Inl (Thrown ''TypeError''), st)
                    | Some n \<Rightarrow> (Inr (length st, []), st @ [n])))"

text \<open>\<open>root.querySelectorAll(sel).forEach(el => el.remove())\<close>: every descendant of the
  root that matches goes, with all below it.  The selectors look at the element alone, so
  the result is the tree with the matching descendants cut out.\<close>

fun prune :: "selector \<Rightarrow> node \<Rightarrow> node" where
  "prune sel (Element t as ks) =
     Element t as (map (prune sel) (filter (\<lambda>k. \<not> matches sel k) ks))"
| "prune sel n = n"

definition remove_all :: "store \<Rightarrow> ref \<Rightarrow> selector \<Rightarrow> store" where
  "remove_all st root sel = mutate st root (prune sel)"

text \<open>\<open>el.setAttribute(name, value)\<close>\<close>

fun setAttribute :: "string \<Rightarrow> string \<Rightarrow> node \<Rightarrow> node" where
  "setAttribute name v (Element t as ks) = Element t (set_attr name v as) ks"
| "setAttribute name v n = n"

text \<open>
  The loops over the links and the images of \<open>cleanContent\<close>:
  \<^verbatim>\<open>
  links.forEach(link => {
    const href = link.getAttribute('href');
    if (href && !href.startsWith('http') && !href.startsWith('//')) {
      link.setAttribute('href', new URL(href, window.location.href).href);
    }
  });\<close>
  An address that \<open>new URL\<close> rejects ends the loop with the exception.
\<close>

fun make_absolute :: "host \<Rightarrow> string \<Rightarrow> string \<Rightarrow> store \<Rightarrow> ref list \<Rightarrow> (error + unit) \<times> store" where
  "make_absolute h loc name st [] = (Inr (), st)"
| "make_absolute h loc name st (r # rs) =
     (case deref st r of
        None \<Rightarrow> make_absolute h loc name st rs
      | Some el \<Rightarrow>
          (case getAttribute el name of
             None \<Rightarrow> make_absolute h loc name st rs
           | Some v \<Rightarrow>
               if v \<noteq> [] \<and> \<not> startsWith v ''http'' \<and> \<not> startsWith v ''//''
               then (case newURL h v (Some loc) of
                       Inl e \<Rightarrow> (Inl e, st)
                     | Inr absolute \<Rightarrow>
                         make_absolute h loc name
                           (mutate st r (setAttribute name (href absolute))) rs)
               else make_absolute h loc name st rs))"

definition clean_unwanted :: "selector list" where
  "clean_unwanted =
     [Tag ''script'', Tag ''style'', Tag ''noscript'', Tag ''iframe'', Tag ''embed'',
      Tag ''object'',
      Class ''ads'', Class ''advertisement'', Class ''social-share'', Class ''newsletter'',
      AttrContains ''style'' ''display: none'', AttrContains ''style'' ''visibility: hidden'']"

text \<open>
  \<open>cleanContent(element)\<close>, with \<open>window.location.href\<close> as \<open>loc\<close>:
  \<^verbatim>\<open>
  // Clone to avoid modifying original
  const cleaned = element.cloneNode(true);
  unwanted.forEach(selector => {
    const elements = cleaned.querySelectorAll(selector);
    elements.forEach(el => el.remove());
  });
  ... links ... images ...
  return cleaned.innerHTML;\<close>
\<close>

definition cleanContent :: "host \<Rightarrow> string \<Rightarrow> store \<Rightarrow> ref \<Rightarrow> (error + string) \<times> store" where
  "cleanContent h loc st element =
     (case cloneNode st (Some element) of
        (Inl e, st1) \<Rightarrow> (Inl e, st1)
      | (Inr cleaned, st1) \<Rightarrow>
          (let st2 = foldl (\<lambda>s sel. remove_all s cleaned sel) st1
                       (map (as_read (quirks_mode h)) clean_unwanted)
           in case make_absolute h loc ''href'' st2
                     (ref_querySelectorAll st2 cleaned (TagAttr ''a'' ''href'')) of
                (Inl e, st3) \<Rightarrow> (Inl e, st3)
              | (Inr u, st3) \<Rightarrow>
                  (case make_absolute h loc ''src'' st3
                          (ref_querySelectorAll st3 cleaned (TagAttr ''img'' ''src'')) of
                     (Inl e, st4) \<Rightarrow> (Inl e, st4)
                   | (Inr u', st4) \<Rightarrow>
                       (case deref st4 cleaned of
                          None \<Rightarrow> (Inl (Thrown ''TypeError''), st4)
                        | Some c \<Rightarrow> (Inr (innerHTML h c), st4)))))"

definition contentSelectors :: "selector list" where
  "contentSelectors =
     [Tag ''article'', Tag ''main'', AttrEq ''role'' ''main'',
      Class ''content'', Class ''post-content'', Class ''article-content'',
      Class ''entry-content'', Id ''content'', Class ''main-content'']"

definition body_unwanted :: "selector list" where
  "body_unwanted =
     [Tag ''nav'', Tag ''header'', Tag ''footer'', Tag ''aside'', Tag ''script'', Tag ''style'',
      Class ''navigation'', Class ''nav'', Class ''header'', Class ''footer'', Class ''sidebar'',
      Class ''ads'', Class ''advertisement'', Class ''social'', Class ''comments'']"

text \<open>The loop of \<open>getMainContent\<close> over the container selectors:
  \<^verbatim>\<open>if (element && element.textContent.trim().length > 100) return this.cleanContent(element);\<close>\<close>

fun find_container :: "store \<Rightarrow> selector list \<Rightarrow> ref option" where
  "find_container st [] = None"
| "find_container st (sel # sels) =
     (case document_querySelector st sel of
        None \<Rightarrow> find_container st sels
      | Some element \<Rightarrow>
          (case deref st element of
             None \<Rightarrow> find_container st sels
           | Some el \<Rightarrow> if 100 < length (trim (textContent el)) then Some element
                         else find_container st sels))"

text \<open>
  \<open>getMainContent()\<close>; its fall-back:
  \<^verbatim>\<open>
  const body = document.body.cloneNode(true);
  unwanted.forEach(selector => {
    const elements = body.querySelectorAll(selector);
    elements.forEach(el => el.remove());
  });
  return this.cleanContent(body);\<close>
\<close>

definition getMainContent :: "host \<Rightarrow> string \<Rightarrow> store \<Rightarrow> (error + string) \<times> store" where
  "getMainContent h loc st =
     (case find_container st (map (as_read (quirks_mode h)) contentSelectors) of
        Some element \<Rightarrow> cleanContent h loc st element
      | None \<Rightarrow>
          (case cloneNode st (document_body st) of
             (Inl e, st1) \<Rightarrow> (Inl e, st1)
           | (Inr body, st1) \<Rightarrow>
               cleanContent h loc
                 (foldl (\<lambda>s sel. remove_all s body sel) st1
                    (map (as_read (quirks_mode h)) body_unwanted))
                 body))"

text \<open>\<open>document.createElement('div')\<close> followed by \<open>temp.innerHTML = html\<close>: a new detached
  element whose children are the parse of the markup.\<close>

definition createElement :: "store \<Rightarrow> string \<Rightarrow> ref \<times> store" where
  "createElement st t = ((length st, []), st @ [Element t [] []])"

fun set_children :: "node list \<Rightarrow> node \<Rightarrow> node" where
  "set_children ks (Element t as old) = Element t as ks"
| "set_children ks n = n"

definition temp_div :: "host \<Rightarrow> store \<Rightarrow> string \<Rightarrow> ref \<times> store" where
  "temp_div h st html =
     (case createElement st ''div'' of
        (temp, st1) \<Rightarrow> (temp, mutate st1 temp (set_children (parseHTML h html))))"

text \<open>\<open>countWords(html)\<close> and \<open>convertToMarkdown(html)\<close> with their effect on the store:
  each makes its own detached \<open>div\<close> and reads it.\<close>

definition countWords_st :: "host \<Rightarrow> store \<Rightarrow> string \<Rightarrow> nat \<times> store" where
  "countWords_st h st html =
     (case temp_div h st html of
        (temp, st1) \<Rightarrow>
          (case deref st1 temp of
             None \<Rightarrow> (countWords [], st1)
           | Some t \<Rightarrow> (countWords (textContent t), st1)))"

definition convertToMarkdown_st :: "host \<Rightarrow> store \<Rightarrow> string \<Rightarrow> string \<times> store" where
  "convertToMarkdown_st h st html =
     (case temp_div h st html of
        (temp, st1) \<Rightarrow>
          (case deref st1 temp of
             None \<Rightarrow> (clean_up [], st1)
           | Some t \<Rightarrow> (clean_up (htmlToSimpleMarkdown t), st1)))"

text \<open>
  \<open>extractPageContent()\<close> of the content script on the document \<open>d\<close>, with
  \<open>window.location.href\<close> and \<open>window.location.hostname\<close> as \<open>loc\<close> and \<open>lochost\<close>.  The
  store starts with the document's tree alone; the result comes with the store at the
  end.
\<close>

record PageContent =
  pc_url :: string
  pc_domain :: string
  pc_title :: string
  pc_description :: string
  pc_author :: string
  pc_content :: string
  pc_markdown :: string
  pc_wordCount :: nat
  pc_timestamp :: string

definition extractPageContent_js ::
  "host \<Rightarrow> string \<Rightarrow> string \<Rightarrow> document \<Rightarrow> (error + PageContent) \<times> store" where
  "extractPageContent_js h loc lochost d =
     (case getTitle (quirks_mode h) d of
        Inl e \<Rightarrow> (Inl e, [doc_root d])
      | Inr ttl \<Rightarrow>
     (case getDescription (quirks_mode h) d of
        Inl e \<Rightarrow> (Inl e, [doc_root d])
      | Inr descr \<Rightarrow>
     (case getAuthor (quirks_mode h) d of
        Inl e \<Rightarrow> (Inl e, [doc_root d])
      | Inr auth \<Rightarrow>
     (case getMainContent h loc [doc_root d] of
        (Inl e, st1) \<Rightarrow> (Inl e, st1)
      | (Inr cont, st1) \<Rightarrow>
          (case countWords_st h st1 cont of
             (wc, st2) \<Rightarrow>
               (case convertToMarkdown_st h st2 cont of
                  (markdown, st3) \<Rightarrow>
                    (Inr \<lparr> pc_url = loc, pc_domain = lochost, pc_title = ttl,
                           pc_description = descr, pc_author = auth,
                           pc_content = cont, pc_markdown = markdown,
                           pc_wordCount = wc, pc_timestamp = now_iso h \<rparr>, st3)))))))"

section \<open>The background script (background.js)\<close>

text \<open>
  \<^verbatim>\<open>
  createMarkdownFile(data) {
    const frontmatter = `---
  url: ${data.url}
  title: "${data.title.replace(/"/g, '\\"')}"
  timestamp: ${data.timestamp}
  domain: ${data.domain}
  author: ${data.author || 'Unknown'}
  description: "${(data.description || '').replace(/"/g, '\\"')}"
  word_count: ${data.wordCount}
  ---

  `;
    return frontmatter + data.markdown;
  }\<close>
\<close>

definition markdown_file_lines :: "PageContent \<Rightarrow> string list" where
  "markdown_file_lines data =
     [''---'',
      ''url: '' @ pc_url data,
      ''title: '' @ quoted (escape_quotes (pc_title data)),
      ''timestamp: '' @ pc_timestamp data,
      ''domain: '' @ pc_domain data,
      ''author: '' @ (if pc_author data \<noteq> [] then pc_author data else ''Unknown''),
      ''description: '' @ quoted (escape_quotes (pc_description data)),
      ''word_count: '' @ show_nat (pc_wordCount data),
      ''---'',
      [],
      []]"

definition createMarkdownFile :: "PageContent \<Rightarrow> string" where
  "createMarkdownFile data = join [NL] (markdown_file_lines data) @ pc_markdown data"

section \<open>Notions of the specification\<close>

text \<open>The lines of a text: the pieces between its line feeds.\<close>

fun split_lines :: "string \<Rightarrow> string list" where
  "split_lines [] = [[]]"
| "split_lines (c # cs) =
     (if c = NL then [] # split_lines cs
      else (case split_lines cs of [] \<Rightarrow> [[c]] | l # ls \<Rightarrow> (c # l) # ls))"

text \<open>A line \<open>key: value\<close> for the key \<open>k\<close> is among the lines; the lines of the header
  that \<open>createFrontmatter\<close> returns.\<close>

definition emits_key :: "string \<Rightarrow> string list \<Rightarrow> bool" where
  "emits_key k ls = list_ex (\<lambda>l. startsWith l (k @ '': '')) ls"

definition header_lines :: "ExtractedContent \<Rightarrow> string list" where
  "header_lines data = split_lines (createFrontmatter data)"

text \<open>No string field of the record holds a line feed.\<close>

definition line_feed_free :: "ExtractedContent \<Rightarrow> bool" where
  "line_feed_free data =
     (NL \<notin> set (url data) \<and> NL \<notin> set (title data) \<and> NL \<notin> set (timestamp data)
      \<and> NL \<notin> set (domain data) \<and> NL \<notin> set (author data)
      \<and> NL \<notin> set (description data) \<and> NL \<notin> set (excerpt data))"





text \<open>The minimal record of a failed extraction: the document's title (or the constant),
  the body's markup as content, and the word count and excerpt of the body's plain text.\<close>

definition minimal_record ::
  "host \<Rightarrow> document \<Rightarrow> node \<Rightarrow> string \<Rightarrow> string \<Rightarrow> ExtractedContent" where
  "minimal_record h d body u dmn =
     \<lparr> title = (if doc_title d \<noteq> [] then doc_title d else ''Untitled''),
       content = innerHTML h body,
       author = extractAuthor (quirks_mode h) d, description = extractDescription d,
       url = u, domain = dmn, timestamp = now_iso h,
       wordCount = length (tokens (textContent body)),
       excerpt = createExcerpt (textContent body) 200 \<rparr>"

text \<open>Title resolution in the specification's words: the candidates in order, the first
  whose trimmed text is longer than 3 characters wins, and the document's own title or
  the constant otherwise.  Its first candidate is the first \<open>h1\<close> inside an \<open>article\<close>.
  The text of a candidate is its \<open>content\<close> attribute when it is a \<open>meta\<close> element that
  has one, and the text below it otherwise.\<close>

fun h1_in_article :: "bool \<Rightarrow> node \<Rightarrow> node list"
  and h1s_in_article :: "bool \<Rightarrow> node list \<Rightarrow> node list" where
  "h1_in_article inside (Element t as ks) =
     (if inside \<and> t = ''h1'' then [Element t as ks] else [])
     @ h1s_in_article (inside \<or> t = ''article'') ks"
| "h1_in_article inside (Text s) = []"
| "h1_in_article inside (Comment s) = []"
| "h1s_in_article inside [] = []"
| "h1s_in_article inside (k # ks) = h1_in_article inside k @ h1s_in_article inside ks"








text \<open>A text in which white space occurs only as single spaces between other
  characters' runs: every white-space character is a space and no two are adjacent.\<close>

fun single_spaced :: "string \<Rightarrow> bool" where
  "single_spaced [] = True"
| "single_spaced [c] = (is_ws c \<longrightarrow> c = CHR '' '')"
| "single_spaced (c # d # cs) =
     ((is_ws c \<longrightarrow> c = CHR '' '' \<and> non_ws d) \<and> single_spaced (d # cs))"

text \<open>Every tree of the store \<open>st\<close> is still in the store \<open>st'\<close>, at its place and
  unchanged; \<open>st'\<close> may hold more trees after them.\<close>

definition keeps :: "store \<Rightarrow> store \<Rightarrow> bool" where
  "keeps st st' = (take (length st) st' = st)"

section \<open>Example environments and inputs\<close>

text \<open>A plain serialiser for the examples: tags, attributes and children as written.\<close>

fun write_attrs :: "(string \<times> string) list \<Rightarrow> string" where
  "write_attrs [] = []"
| "write_attrs ((k, v) # as) = '' '' @ k @ ''='' @ quoted v @ write_attrs as"

fun write_node :: "node \<Rightarrow> string" and write_nodes :: "node list \<Rightarrow> string" where
  "write_node (Text s) = s"
| "write_node (Comment s) = ''<!--'' @ s @ ''-->''"
| "write_node (Element t as ks) =
     ''<'' @ t @ write_attrs as @ ''>'' @ write_nodes ks @ ''</'' @ t @ ''>''"
| "write_nodes [] = []"
| "write_nodes (n # ns) = write_node n @ write_nodes ns"

text \<open>A \<open>URL\<close> constructor for the examples: an \<open>https\<close> address is taken as it is, a
  path that starts with a slash is put behind the origin of an \<open>https\<close> base, and
  anything else is rejected.\<close>

definition https_host :: "string \<Rightarrow> string" where
  "https_host s = takeWhile (\<lambda>c. c \<noteq> CHR ''/'') (drop 8 s)"

definition example_URL :: "string \<Rightarrow> string option \<Rightarrow> error + url_record" where
  "example_URL s base =
     (if startsWith s ''https://'' then Inr \<lparr> href = s, hostname = https_host s \<rparr>
      else case base of
        None \<Rightarrow> Inl (Thrown ''Invalid URL'')
      | Some b \<Rightarrow>
          if startsWith b ''https://'' \<and> startsWith s ''/''
          then Inr \<lparr> href = ''https://'' @ https_host b @ s, hostname = https_host b \<rparr>
          else Inl (Thrown ''Invalid URL''))"

definition two_paragraphs :: "node list" where
  "two_paragraphs = [Element ''p'' [] [Text ''a''], Element ''p'' [] [Text ''b'']]"

text \<open>Two tables with a cell that spans two rows; the cell of the second holds the text
  \<^verbatim>\<open>[](x)\<close>, a lambda of C++.\<close>

definition rowspan_table :: node where
  "rowspan_table =
     Element ''table'' []
       [Element ''tbody'' []
          [Element ''tr'' [] [Element ''td'' [(''rowspan'', ''2'')] [Text ''a''],
                              Element ''td'' [] [Text ''b'']],
           Element ''tr'' [] [Element ''td'' [] [Text ''c'']]]]"

definition lambda_table :: node where
  "lambda_table =
     Element ''table'' []
       [Element ''tbody'' []
          [Element ''tr'' [] [Element ''td'' [(''rowspan'', ''2'')] [Text ''[](x)'']]]]"

text \<open>The parser of the examples knows their markup
  (\<^verbatim>\<open><p>a</p><p>b</p>\<close>, \<^verbatim>\<open><p>Hello world</p>\<close>,
  \<^verbatim>\<open>a &lt;b&gt;x&lt;/b&gt;\<close>, \<^verbatim>\<open>a <b>x</b>\<close> and the two tables as the serialiser
  writes them) and takes any other input for plain text.\<close>

definition example_parse :: "string \<Rightarrow> node list" where
  "example_parse s =
     (if s = ''<p>a</p><p>b</p>'' then two_paragraphs
      else if s = ''<p>Hello world</p>'' then [Element ''p'' [] [Text ''Hello world'']]
      else if s = ''a &lt;b&gt;x&lt;/b&gt;'' then [Text ''a <b>x</b>'']
      else if s = ''a <b>x</b>'' then [Text ''a '', Element ''b'' [] [Text ''x'']]
      else if s = write_node rowspan_table then [rowspan_table]
      else if s = write_node lambda_table then [lambda_table]
      else [Text s])"

text \<open>The conversion library of the examples: an element counts as blank when it has no
  text and is none of the elements that mean something when empty; no flanking white
  space; text is taken as it is; no rules but the converter's; the blank rule gives
  nothing and the default rule the converted content.\<close>

definition example_isBlank :: "node \<Rightarrow> bool" where
  "example_isBlank n =
     (trim (textContent n) = []
      \<and> tag_of n \<notin> set (map Some [''a'', ''table'', ''thead'', ''tbody'', ''tfoot'', ''th'',
                                      ''td'', ''iframe'', ''script'', ''audio'', ''video'']))"

definition empty_rule :: rule where
  "empty_rule = \<lparr> rule_filter = (\<lambda>n. True), rule_replacement = (\<lambda>svc cont n. Inr []) \<rparr>"

definition content_rule :: rule where
  "content_rule = \<lparr> rule_filter = (\<lambda>n. True), rule_replacement = (\<lambda>svc cont n. Inr cont) \<rparr>"

definition throwing_rule :: rule where
  "throwing_rule =
     \<lparr> rule_filter = (\<lambda>n. True),
       rule_replacement = (\<lambda>svc cont n. Inl (Thrown ''turndown'')) \<rparr>"

text \<open>An environment whose libraries pass their input through, and one whose libraries
  throw.\<close>

definition markup_host :: host where
  "markup_host =
     \<lparr> quirks_mode = False,
       parseHTML = example_parse,
       serializeHTML = write_nodes,
       newURL = example_URL,
       now_iso = ''2025-01-01T00:00:00.000Z'',
       defuddle = (\<lambda>d. Inr None),
       sanitize = (\<lambda>s. Inr s),
       root_node = example_parse,
       isBlank = example_isBlank,
       flankingWhitespace = (\<lambda>lefts n rights. ([], [])),
       text_replacement = (\<lambda>code s. s),
       library_rules = [],
       keep_rules = [],
       blank_rule = empty_rule,
       default_rule = content_rule,
       call_depth = 8 \<rparr>"

definition throwing_host :: host where
  "throwing_host =
     \<lparr> quirks_mode = False,
       parseHTML = example_parse,
       serializeHTML = write_nodes,
       newURL = example_URL,
       now_iso = ''2025-01-01T00:00:00.000Z'',
       defuddle = (\<lambda>d. Inl (Thrown ''defuddle'')),
       sanitize = (\<lambda>s. Inr s),
       root_node = example_parse,
       isBlank = example_isBlank,
       flankingWhitespace = (\<lambda>lefts n rights. ([], [])),
       text_replacement = (\<lambda>code s. s),
       library_rules = [throwing_rule],
       keep_rules = [],
       blank_rule = empty_rule,
       default_rule = content_rule,
       call_depth = 8 \<rparr>"

definition hello_body :: node where
  "hello_body = Element ''body'' [] [Element ''p'' [] [Text ''Hello world'']]"

definition hello_document :: document where
  "hello_document = \<lparr> doc_title = ''Greeting'', doc_head = [], doc_body = Some hello_body \<rparr>"

definition hello_content :: ExtractedContent where
  "hello_content =
     \<lparr> title = ''Greeting'', content = ''<p>Hello world</p>'', author = ''Ada'',
       description = [], url = ''https://ex.com/a'', domain = ''ex.com'',
       timestamp = ''2025-01-01T00:00:00.000Z'', wordCount = 2, excerpt = ''Hello world'' \<rparr>"

text \<open>A document without a body: its root element holds the head alone, as in a page
  whose \<open>body\<close> element a script has removed; a page that is not HTML (a drawing, a
  feed) has no body either.\<close>

definition bodyless_document :: document where
  "bodyless_document = \<lparr> doc_title = ''Drawing'', doc_head = [], doc_body = None \<rparr>"

text \<open>A record without an author whose description has a second line.\<close>

definition two_line_content :: ExtractedContent where
  "two_line_content =
     \<lparr> title = ''Notes'', content = ''<p>Hello world</p>'', author = [],
       description = ''first line'' @ [NL] @ ''author: nobody'',
       url = ''https://ex.com/a'', domain = ''ex.com'',
       timestamp = ''2025-01-01T00:00:00.000Z'', wordCount = 2, excerpt = ''Hello world'' \<rparr>"




text \<open>A document whose first element of class \<open>title\<close> is a \<open>template\<close>, before the
  heading of that class.\<close>

definition template_document :: document where
  "template_document =
     \<lparr> doc_title = ''Page'', doc_head = [],
       doc_body = Some (Element ''body'' []
         [Element ''template'' [(''class'', ''title'')] [],
          Element ''h2'' [(''class'', ''title'')] [Text ''Real Article Title'']]) \<rparr>"

text \<open>A document whose first element of class \<open>title\<close> has the name of the class
  with a capital.\<close>

definition capital_class_document :: document where
  "capital_class_document =
     \<lparr> doc_title = ''Page'', doc_head = [],
       doc_body = Some (Element ''body'' []
         [Element ''div'' [(''class'', ''Title'')] [Text ''Capital Class''],
          Element ''div'' [(''class'', ''title'')] [Text ''Small Class'']]) \<rparr>"

text \<open>A document whose first author link has its \<open>rel\<close> value in capitals.\<close>

definition capitals_document :: document where
  "capitals_document =
     \<lparr> doc_title = ''Page'', doc_head = [],
       doc_body = Some (Element ''body'' []
         [Element ''a'' [(''rel'', ''AUTHOR'')] [Text ''Rel Upper''],
          Element ''span'' [(''class'', ''byline'')] [Text ''By Line'']]) \<rparr>"

text \<open>A page with a script and a relative link in its article.\<close>

definition script_body :: node where
  "script_body =
     Element ''body'' []
       [Element ''article'' []
          [Element ''script'' [] [Text ''track()''],
           Element ''a'' [(''href'', ''/about'')] [Text ''About'']]]"

definition script_document :: document where
  "script_document = \<lparr> doc_title = ''Page'', doc_head = [], doc_body = Some script_body \<rparr>"

text \<open>A page with a link whose address no \<open>URL\<close> constructor accepts (its port is not a
  number).\<close>

definition bad_link_body :: node where
  "bad_link_body =
     Element ''body'' []
       [Element ''p'' [] [Element ''a'' [(''href'', ''x://a:b'')] [Text ''link'']]]"

definition bad_link_document :: document where
  "bad_link_document = \<lparr> doc_title = ''Page'', doc_head = [], doc_body = Some bad_link_body \<rparr>"

section \<open>Attribute values in selectors\<close>

lemma value_matches_exact [simp]:
  "value_matches ''name'' w v = (w = v)"
  "value_matches ''property'' w v = (w = v)"
  "value_matches ''role'' w v = (w = v)"
  by (simp_all add: value_matches_def case_insensitive_attributes_def)

lemma value_matches_rel [simp]:
  "value_matches ''rel'' w v = (map to_lower w = map to_lower v)"
  by (simp add: value_matches_def case_insensitive_attributes_def)

lemma value_contains_style [simp]:
  "value_contains ''style'' w v = str_includes w v"
  by (simp add: value_contains_def case_insensitive_attributes_def)

text \<open>In a document that is not in quirks mode, and in the environments of the
  examples, the selectors are read as they are written.\<close>

lemma as_read_standards [simp]: "as_read False sel = sel"
  by (induction sel) simp_all

lemma map_as_read_standards [simp]: "map (as_read False) sels = sels"
  by (induction sels) simp_all

lemma example_mode [simp]:
  "quirks_mode markup_host = False" "quirks_mode throwing_host = False"
  by (simp_all add: markup_host_def throwing_host_def)

text \<open>The author link is found whatever the case of its \<open>rel\<close> value, by both
  extractors.\<close>

lemma author_rel_in_capitals:
  "extractAuthor False capitals_document = ''Rel Upper''
   \<and> getAuthor False capitals_document = Inr ''Rel Upper''"
  by (simp add: extractAuthor_def author_selectors_def getAuthor_def byline_selectors_def
        capitals_document_def doc_querySelector_def doc_root_def classList_def
        candidate_text_def content_property_def to_lower_def or_else_def trim_def is_ws_def)

section \<open>Word count\<close>

lemma tokens_by_non_sep:
  "\<forall>c\<in>set w. \<not> sep c \<Longrightarrow> tokens_by sep cur (w @ r) = tokens_by sep (cur @ w) r"
  by (induction w arbitrary: cur) auto

lemma tokens_by_dropWhile:
  "tokens_by sep [] (dropWhile sep s) = tokens_by sep [] s"
  by (induction s) auto

lemma tokens_by_sep_tail:
  "\<forall>c\<in>set t. sep c \<Longrightarrow> tokens_by sep cur (s @ t) = tokens_by sep cur s"
proof (induction s arbitrary: cur)
  case Nil
  then show ?case by (induction t arbitrary: cur) auto
next
  case (Cons a s)
  then show ?case by auto
qed

lemma split_ws_tokens:
  "filter (\<lambda>word. 0 < length word) (split_ws s) = tokens_by is_ws [] s"
proof (induction s rule: split_ws.induct)
  case (1 s)
  let ?w = "takeWhile non_ws s" and ?r = "dropWhile non_ws s"
  have w: "\<forall>c\<in>set ?w. non_ws c" by (auto dest: set_takeWhileD)
  have tk: "tokens_by is_ws [] s = tokens_by is_ws ?w ?r"
    using tokens_by_non_sep [OF w, of "[]" ?r] by simp
  show ?case
  proof (cases "?r = []")
    case True
    have "split_ws s = [?w]" using True by (subst split_ws.simps) simp
    moreover have "tokens_by is_ws [] s = tokens_by is_ws ?w []" using tk True by simp
    ultimately show ?thesis by simp
  next
    case False
    then obtain c cs where r: "?r = c # cs" by (cases ?r) auto
    have c: "is_ws c" using hd_dropWhile [OF False] r by simp
    have "filter (\<lambda>word. 0 < length word) (split_ws s)
          = (if ?w = [] then [] else [?w]) @ tokens_by is_ws [] (dropWhile is_ws ?r)"
      using False "1.IH" by (subst split_ws.simps) auto
    also have "tokens_by is_ws [] (dropWhile is_ws ?r) = tokens_by is_ws [] cs"
      using c r by (simp add: tokens_by_dropWhile)
    finally show ?thesis using tk r c by simp
  qed
qed

lemma trim_decomp:
  "\<exists>t. dropWhile is_ws s = trim s @ t \<and> (\<forall>c\<in>set t. is_ws c)"
proof -
  let ?d = "dropWhile is_ws s"
  have "rev ?d = takeWhile is_ws (rev ?d) @ dropWhile is_ws (rev ?d)" by simp
  then have "?d = rev (dropWhile is_ws (rev ?d)) @ rev (takeWhile is_ws (rev ?d))"
    by (metis rev_append rev_rev_ident)
  moreover have "\<forall>c\<in>set (rev (takeWhile is_ws (rev ?d))). is_ws c"
    by (auto dest: set_takeWhileD)
  ultimately show ?thesis unfolding trim_def by blast
qed

lemma tokens_trim: "tokens (trim s) = tokens s"
proof -
  obtain t where t: "dropWhile is_ws s = trim s @ t" "\<forall>c\<in>set t. is_ws c"
    using trim_decomp by blast
  have "tokens_by is_ws [] s = tokens_by is_ws [] (trim s @ t)"
    using t(1) tokens_by_dropWhile [of is_ws s] by simp
  then show ?thesis using tokens_by_sep_tail [OF t(2)] by (simp add: tokens_def)
qed

lemma countWords_eq: "countWords s = length (tokens s)"
  using split_ws_tokens [of "trim s"] tokens_trim [of s]
  by (simp add: countWords_def tokens_def)

section \<open>The domain of a page address\<close>

lemma getDomain_returns: "\<exists>dmn. getDomain h u = Inr dmn"
  by (simp add: getDomain_def try_catch_def split: sum.splits)

text \<open>On a document that has a body the extractor returns a record.\<close>

lemma extractPageContent_returns:
  "doc_body d = Some body \<Longrightarrow> \<exists>r. extractPageContent h d u = Inr r"
proof -
  assume b: "doc_body d = Some body"
  obtain dmn where "getDomain h u = Inr dmn" using getDomain_returns by blast
  then show ?thesis using b
    by (simp add: extractPageContent_def try_catch_def extract_fallback_def
          body_innerHTML_def body_textContent_def Let_def split: sum.splits)
qed

text \<open>
  Claim C10.  \<open>getDomain\<close> returns the host name of an address the \<open>URL\<close> constructor
  parses and the string \<open>unknown\<close> for one it rejects; it never throws; and the
  \<open>domain\<close> field of the record \<open>extractPageContent\<close> returns is what it returned.
\<close>

theorem getDomain_hostname_or_unknown:
  "(\<forall>parsed. newURL h u None = Inr parsed \<longrightarrow> getDomain h u = Inr (hostname parsed))
   \<and> (\<forall>e. newURL h u None = Inl e \<longrightarrow> getDomain h u = Inr ''unknown'')
   \<and> (\<exists>dmn. getDomain h u = Inr dmn)
   \<and> (\<forall>r. extractPageContent h d u = Inr r \<longrightarrow> getDomain h u = Inr (domain r))"
  by (auto simp: getDomain_def try_catch_def extractPageContent_def extract_try_def
        extract_fallback_def body_innerHTML_def body_textContent_def Let_def
        split: sum.splits option.splits)

theorem getDomain_hostname_or_unknown_witness:
  "newURL throwing_host ''https://ex.com/a'' None
     = Inr \<lparr> href = ''https://ex.com/a'', hostname = ''ex.com'' \<rparr>
   \<and> getDomain throwing_host ''https://ex.com/a'' = Inr ''ex.com''
   \<and> newURL throwing_host ''no address'' None = Inl (Thrown ''Invalid URL'')
   \<and> getDomain throwing_host ''no address'' = Inr ''unknown''
   \<and> (\<exists>r. extractPageContent throwing_host hello_document ''no address'' = Inr r
          \<and> domain r = ''unknown'')"
proof -
  have a: "newURL throwing_host ''https://ex.com/a'' None
             = Inr \<lparr> href = ''https://ex.com/a'', hostname = ''ex.com'' \<rparr>"
    by (simp add: throwing_host_def example_URL_def https_host_def)
  have b: "newURL throwing_host ''no address'' None = Inl (Thrown ''Invalid URL'')"
    by (simp add: throwing_host_def example_URL_def)
  note t1 = getDomain_hostname_or_unknown [of throwing_host "''https://ex.com/a''" hello_document]
  note t2 = getDomain_hostname_or_unknown [of throwing_host "''no address''" hello_document]
  have c: "getDomain throwing_host ''https://ex.com/a'' = Inr ''ex.com''"
    using t1 a by simp
  have d: "getDomain throwing_host ''no address'' = Inr ''unknown''"
    using t2 b by simp
  have "doc_body hello_document = Some hello_body" by (simp add: hello_document_def)
  then obtain r where r: "extractPageContent throwing_host hello_document ''no address'' = Inr r"
    using extractPageContent_returns by blast
  then have "domain r = ''unknown''" using t2 d by auto
  with a b c d r show ?thesis by blast
qed

section \<open>Extraction on a document without a body\<close>

text \<open>
  With a body, the extractor always returns a record, with the document's title (or the
  constant), the page address and its domain, the time, the author and the description;
  when the library call or the sanitiser throws, the record is the minimal one built from
  the document's title and the body's text and markup.
\<close>

lemma extractPageContent_with_body:
  assumes "doc_body d = Some body"
  shows "(\<exists>r. extractPageContent h d u = Inr r
            \<and> title r = (if doc_title d \<noteq> [] then doc_title d else ''Untitled'')
            \<and> title r \<noteq> [] \<and> url r = u \<and> getDomain h u = Inr (domain r)
            \<and> timestamp r = now_iso h \<and> author r = extractAuthor (quirks_mode h) d
            \<and> description r = extractDescription d)
   \<and> ((\<exists>e. defuddle h d = Inl e
            \<or> (\<exists>result c. defuddle h d = Inr result \<and> chosen_content h d result = Inr c
                  \<and> sanitize h c = Inl e))
        \<longrightarrow> (\<exists>dmn. getDomain h u = Inr dmn
               \<and> extractPageContent h d u = Inr (minimal_record h d body u dmn)))"
proof -
  obtain dmn where dmn: "getDomain h u = Inr dmn" using getDomain_returns by blast
  have 1: "\<exists>r. extractPageContent h d u = Inr r
            \<and> title r = (if doc_title d \<noteq> [] then doc_title d else ''Untitled'')
            \<and> title r \<noteq> [] \<and> url r = u \<and> getDomain h u = Inr (domain r)
            \<and> timestamp r = now_iso h \<and> author r = extractAuthor (quirks_mode h) d
            \<and> description r = extractDescription d"
    using dmn assms
    by (auto simp: extractPageContent_def try_catch_def extract_try_def extract_fallback_def
          body_innerHTML_def body_textContent_def Let_def split: sum.splits)
  have 2: "extractPageContent h d u = Inr (minimal_record h d body u dmn)"
    if "defuddle h d = Inl e
        \<or> (\<exists>result c. defuddle h d = Inr result \<and> chosen_content h d result = Inr c
              \<and> sanitize h c = Inl e)"
    for e
    using that dmn assms
    by (auto simp: extractPageContent_def try_catch_def extract_try_def extract_fallback_def
          body_innerHTML_def body_textContent_def minimal_record_def countWords_eq Let_def)
  from 1 2 dmn show ?thesis by blast
qed

text \<open>Without a body, whatever makes the extraction fail makes the handler fail, which
  reads \<open>document.body.textContent\<close>: the library call throws, or it finds nothing or
  too little (then the extraction itself reads \<open>document.body.innerHTML\<close>), or the
  sanitiser throws.\<close>

lemma chosen_content_without_body:
  "doc_body d = None \<Longrightarrow> chosen_content h d None = Inl (Thrown ''TypeError'')"
  by (simp add: chosen_content_def body_innerHTML_def)

lemma extractPageContent_without_body:
  assumes "doc_body d = None"
    and "defuddle h d = Inl e
         \<or> (\<exists>result. defuddle h d = Inr result \<and> chosen_content h d result = Inl e)
         \<or> (\<exists>result c. defuddle h d = Inr result \<and> chosen_content h d result = Inr c
               \<and> sanitize h c = Inl e)"
  shows "extractPageContent h d u = Inl (Thrown ''TypeError'')"
proof -
  obtain dmn where dmn: "getDomain h u = Inr dmn" using getDomain_returns by blast
  show ?thesis using assms dmn
    by (auto simp: extractPageContent_def try_catch_def extract_try_def extract_fallback_def
          body_innerHTML_def body_textContent_def Let_def)
qed

text \<open>
  Claim C1 fails on the extractor.  On a document without a body on which the library
  call throws, the handler of \<open>extractPageContent\<close> throws a \<open>TypeError\<close>, which leaves
  the function; the same when the library finds nothing.
\<close>

theorem extractPageContent_throws_without_body:
  "doc_body bodyless_document = None
   \<and> defuddle throwing_host bodyless_document = Inl (Thrown ''defuddle'')
   \<and> extractPageContent throwing_host bodyless_document ''https://ex.com/a''
       = Inl (Thrown ''TypeError'')
   \<and> defuddle markup_host bodyless_document = Inr None
   \<and> extractPageContent markup_host bodyless_document ''https://ex.com/a''
       = Inl (Thrown ''TypeError'')"
proof -
  have b: "doc_body bodyless_document = None" by (simp add: bodyless_document_def)
  have t: "defuddle throwing_host bodyless_document = Inl (Thrown ''defuddle'')"
    by (simp add: throwing_host_def)
  have m: "defuddle markup_host bodyless_document = Inr None"
    by (simp add: markup_host_def)
  have c: "chosen_content markup_host bodyless_document None = Inl (Thrown ''TypeError'')"
    using b by (rule chosen_content_without_body)
  show ?thesis
    using b t m c extractPageContent_without_body [OF b, of throwing_host "Thrown ''defuddle''"]
      extractPageContent_without_body [OF b, of markup_host "Thrown ''TypeError''"]
    by simp
qed

section \<open>The metadata header\<close>

lemma frontmatter_lines_eq:
  "frontmatter_lines data =
     [''---'',
      ''url: '' @ quoted (url data),
      ''title: '' @ quoted (escape_quotes (title data)),
      ''timestamp: '' @ quoted (timestamp data),
      ''domain: '' @ quoted (domain data)]
     @ (if author data \<noteq> [] then [''author: '' @ quoted (escape_quotes (author data))] else [])
     @ (if description data \<noteq> []
        then [''description: '' @ quoted (escape_quotes (description data))] else [])
     @ [''word_count: '' @ show_nat (wordCount data)]
     @ (if excerpt data \<noteq> [] then [''excerpt: '' @ quoted (escape_quotes (excerpt data))] else [])
     @ [''---'']"
  by (simp add: frontmatter_lines_def frontmatter_array_def)

lemma createFrontmatter_prefix:
  "\<exists>rest. createFrontmatter data = ''---'' @ [NL] @ ''url: '' @ rest"
  by (simp add: createFrontmatter_def frontmatter_lines_eq)

text \<open>The text of the header: the entries, each on a line of its own.\<close>

lemma createFrontmatter_text:
  "createFrontmatter data =
     ''---'' @ [NL]
     @ ''url: '' @ quoted (url data) @ [NL]
     @ ''title: '' @ quoted (escape_quotes (title data)) @ [NL]
     @ ''timestamp: '' @ quoted (timestamp data) @ [NL]
     @ ''domain: '' @ quoted (domain data) @ [NL]
     @ (if author data \<noteq> []
        then ''author: '' @ quoted (escape_quotes (author data)) @ [NL] else [])
     @ (if description data \<noteq> []
        then ''description: '' @ quoted (escape_quotes (description data)) @ [NL] else [])
     @ ''word_count: '' @ show_nat (wordCount data) @ [NL]
     @ (if excerpt data \<noteq> []
        then ''excerpt: '' @ quoted (escape_quotes (excerpt data)) @ [NL] else [])
     @ ''---''"
  by (simp add: createFrontmatter_def frontmatter_lines_eq)

text \<open>The lines of a joined text are the lines of its pieces.\<close>

lemma split_lines_not_Nil: "split_lines s \<noteq> []"
  by (induction s) (auto split: list.splits)

lemma split_lines_append:
  "split_lines (a @ NL # b) = split_lines a @ split_lines b"
proof (induction a)
  case Nil
  show ?case by simp
next
  case (Cons c a)
  show ?case
  proof (cases "c = NL")
    case True
    then show ?thesis using Cons by simp
  next
    case False
    obtain l ls where l: "split_lines a = l # ls"
      using split_lines_not_Nil [of a] by (cases "split_lines a") auto
    show ?thesis using False Cons l by simp
  qed
qed

lemma split_lines_join:
  "ls \<noteq> [] \<Longrightarrow> split_lines (join [NL] ls) = concat (map split_lines ls)"
proof (induction ls rule: induct_list012)
  case (3 x y ys)
  have "join [NL] (x # y # ys) = x @ NL # join [NL] (y # ys)" by simp
  then show ?case using 3 split_lines_append [of x "join [NL] (y # ys)"] by simp
qed simp_all

lemma split_lines_no_line_feed: "NL \<notin> set s \<Longrightarrow> split_lines s = [s]"
  by (induction s) auto

lemma split_lines_startsWith:
  "startsWith l p \<Longrightarrow> NL \<notin> set p \<Longrightarrow> \<exists>x xs. split_lines l = x # xs \<and> startsWith x p"
proof (induction l p rule: startsWith.induct)
  case (1 s)
  obtain x xs where "split_lines s = x # xs"
    using split_lines_not_Nil [of s] by (cases "split_lines s") auto
  then show ?case by simp
next
  case (2 p ps)
  then show ?case by simp
next
  case (3 c cs p ps)
  then obtain x xs where "split_lines cs = x # xs" "startsWith x ps" by auto
  then show ?case using 3 by auto
qed

lemma startsWith_append: "startsWith (p @ r) p"
  by (induction p) auto

lemma emits_key_line:
  assumes "k @ '': '' @ v \<in> set ls" and "NL \<notin> set k"
  shows "emits_key k (concat (map split_lines ls))"
proof -
  have "startsWith (k @ '': '' @ v) (k @ '': '')"
    using startsWith_append [of "k @ '': ''" v] by simp
  moreover have "NL \<notin> set (k @ '': '')" using assms(2) by simp
  ultimately obtain x xs where x: "split_lines (k @ '': '' @ v) = x # xs"
    "startsWith x (k @ '': '')"
    using split_lines_startsWith by blast
  then have "x \<in> set (concat (map split_lines ls))" using assms(1) by force
  then show ?thesis using x(2) by (auto simp: emits_key_def list_ex_iff)
qed

lemma header_lines_eq: "header_lines data = concat (map split_lines (frontmatter_lines data))"
proof -
  have "frontmatter_lines data \<noteq> []" by (simp add: frontmatter_lines_eq)
  then show ?thesis by (simp add: header_lines_def createFrontmatter_def split_lines_join)
qed

lemma concat_split_lines:
  "\<forall>l\<in>set ls. NL \<notin> set l \<Longrightarrow> concat (map split_lines ls) = ls"
  by (induction ls) (simp_all add: split_lines_no_line_feed)

lemma escape_quotes_no_line_feed: "NL \<notin> set s \<Longrightarrow> NL \<notin> set (escape_quotes s)"
  by (induction s) auto

lemma show_nat_no_line_feed: "NL \<notin> set (show_nat n)"
proof (induction n rule: show_nat.induct)
  case (1 n)
  have d: "char_of (48 + k) \<noteq> NL" if "k < 10" for k :: nat
  proof
    assume "char_of (48 + k) = NL"
    then have "(of_char (char_of (48 + k) :: char) :: nat) = of_char NL" by (simp only:)
    then have "(48 + k) mod 256 = 10" by simp
    then show False using that by simp
  qed
  show ?case
  proof (cases "n < 10")
    case True
    then show ?thesis using d [of n] by (subst show_nat.simps) simp
  next
    case False
    have "n mod 10 < 10" by simp
    then show ?thesis using False 1 d [of "n mod 10"] by (subst show_nat.simps) simp
  qed
qed

lemma header_lines_line_feed_free:
  "line_feed_free data \<Longrightarrow> header_lines data = frontmatter_lines data"
proof -
  assume f: "line_feed_free data"
  have "\<forall>l\<in>set (frontmatter_lines data). NL \<notin> set l"
    using f
    by (auto simp: frontmatter_lines_eq line_feed_free_def quoted_def
          escape_quotes_no_line_feed show_nat_no_line_feed)
  then show ?thesis by (simp add: header_lines_eq concat_split_lines)
qed

text \<open>
  Claim C4, as the converter has it.  The header that \<open>createFrontmatter\<close> returns is
  the text of its entries, one after the other, each followed by a line feed but the
  last: the fixed ones, and the entry of \<open>author\<close>, \<open>description\<close> and \<open>excerpt\<close> when
  the value is not empty.  It always has a line for each of the keys \<open>url\<close>, \<open>title\<close>,
  \<open>timestamp\<close>, \<open>domain\<close> and \<open>word_count\<close>, and a line for \<open>author\<close>,
  \<open>description\<close> and \<open>excerpt\<close> whenever the value is not empty.  When no string field
  of the record holds a line feed, its lines are exactly the entries, so that \<open>author\<close>,
  \<open>description\<close> and \<open>excerpt\<close> have a line only when their value is not empty.
\<close>

theorem createFrontmatter_keys:
  "createFrontmatter data =
     ''---'' @ [NL]
     @ ''url: '' @ quoted (url data) @ [NL]
     @ ''title: '' @ quoted (escape_quotes (title data)) @ [NL]
     @ ''timestamp: '' @ quoted (timestamp data) @ [NL]
     @ ''domain: '' @ quoted (domain data) @ [NL]
     @ (if author data \<noteq> []
        then ''author: '' @ quoted (escape_quotes (author data)) @ [NL] else [])
     @ (if description data \<noteq> []
        then ''description: '' @ quoted (escape_quotes (description data)) @ [NL] else [])
     @ ''word_count: '' @ show_nat (wordCount data) @ [NL]
     @ (if excerpt data \<noteq> []
        then ''excerpt: '' @ quoted (escape_quotes (excerpt data)) @ [NL] else [])
     @ ''---''
   \<and> emits_key ''url'' (header_lines data)
   \<and> emits_key ''title'' (header_lines data)
   \<and> emits_key ''timestamp'' (header_lines data)
   \<and> emits_key ''domain'' (header_lines data)
   \<and> emits_key ''word_count'' (header_lines data)
   \<and> (author data \<noteq> [] \<longrightarrow> emits_key ''author'' (header_lines data))
   \<and> (description data \<noteq> [] \<longrightarrow> emits_key ''description'' (header_lines data))
   \<and> (excerpt data \<noteq> [] \<longrightarrow> emits_key ''excerpt'' (header_lines data))
   \<and> (line_feed_free data \<longrightarrow>
         split_lines (createFrontmatter data)
           = [''---'',
              ''url: '' @ quoted (url data),
              ''title: '' @ quoted (escape_quotes (title data)),
              ''timestamp: '' @ quoted (timestamp data),
              ''domain: '' @ quoted (domain data)]
             @ (if author data \<noteq> []
                then [''author: '' @ quoted (escape_quotes (author data))] else [])
             @ (if description data \<noteq> []
                then [''description: '' @ quoted (escape_quotes (description data))] else [])
             @ [''word_count: '' @ show_nat (wordCount data)]
             @ (if excerpt data \<noteq> []
                then [''excerpt: '' @ quoted (escape_quotes (excerpt data))] else [])
             @ [''---'']
         \<and> (emits_key ''author'' (header_lines data) \<longleftrightarrow> author data \<noteq> [])
         \<and> (emits_key ''description'' (header_lines data) \<longleftrightarrow> description data \<noteq> [])
         \<and> (emits_key ''excerpt'' (header_lines data) \<longleftrightarrow> excerpt data \<noteq> []))"
proof -
  let ?ls = "frontmatter_lines data"
  have k: "emits_key k (header_lines data)" if "k @ '': '' @ v \<in> set ?ls" "NL \<notin> set k" for k v
    using emits_key_line [OF that] by (simp add: header_lines_eq)
  have 1: "emits_key ''url'' (header_lines data)"
    by (rule k [of _ "quoted (url data)"]) (simp_all add: frontmatter_lines_eq)
  have 2: "emits_key ''title'' (header_lines data)"
    by (rule k [of _ "quoted (escape_quotes (title data))"]) (simp_all add: frontmatter_lines_eq)
  have 3: "emits_key ''timestamp'' (header_lines data)"
    by (rule k [of _ "quoted (timestamp data)"]) (simp_all add: frontmatter_lines_eq)
  have 4: "emits_key ''domain'' (header_lines data)"
    by (rule k [of _ "quoted (domain data)"]) (simp_all add: frontmatter_lines_eq)
  have 5: "emits_key ''word_count'' (header_lines data)"
    by (rule k [of _ "show_nat (wordCount data)"]) (simp_all add: frontmatter_lines_eq)
  have 6: "emits_key ''author'' (header_lines data)" if "author data \<noteq> []"
    by (rule k [of _ "quoted (escape_quotes (author data))"])
      (simp_all add: frontmatter_lines_eq that)
  have 7: "emits_key ''description'' (header_lines data)" if "description data \<noteq> []"
    by (rule k [of _ "quoted (escape_quotes (description data))"])
      (simp_all add: frontmatter_lines_eq that)
  have 8: "emits_key ''excerpt'' (header_lines data)" if "excerpt data \<noteq> []"
    by (rule k [of _ "quoted (escape_quotes (excerpt data))"])
      (simp_all add: frontmatter_lines_eq that)
  have 9: "split_lines (createFrontmatter data) = ?ls
           \<and> (emits_key ''author'' (header_lines data) \<longleftrightarrow> author data \<noteq> [])
           \<and> (emits_key ''description'' (header_lines data) \<longleftrightarrow> description data \<noteq> [])
           \<and> (emits_key ''excerpt'' (header_lines data) \<longleftrightarrow> excerpt data \<noteq> [])"
    if "line_feed_free data"
  proof -
    have h: "header_lines data = ?ls" using that by (rule header_lines_line_feed_free)
    then have "split_lines (createFrontmatter data) = ?ls" by (simp add: header_lines_def)
    moreover have "emits_key ''author'' ?ls \<longleftrightarrow> author data \<noteq> []"
      by (simp add: frontmatter_lines_eq emits_key_def)
    moreover have "emits_key ''description'' ?ls \<longleftrightarrow> description data \<noteq> []"
      by (simp add: frontmatter_lines_eq emits_key_def)
    moreover have "emits_key ''excerpt'' ?ls \<longleftrightarrow> excerpt data \<noteq> []"
      by (simp add: frontmatter_lines_eq emits_key_def)
    ultimately show ?thesis using h by simp
  qed
  have 0: "createFrontmatter data =
     ''---'' @ [NL]
     @ ''url: '' @ quoted (url data) @ [NL]
     @ ''title: '' @ quoted (escape_quotes (title data)) @ [NL]
     @ ''timestamp: '' @ quoted (timestamp data) @ [NL]
     @ ''domain: '' @ quoted (domain data) @ [NL]
     @ (if author data \<noteq> []
        then ''author: '' @ quoted (escape_quotes (author data)) @ [NL] else [])
     @ (if description data \<noteq> []
        then ''description: '' @ quoted (escape_quotes (description data)) @ [NL] else [])
     @ ''word_count: '' @ show_nat (wordCount data) @ [NL]
     @ (if excerpt data \<noteq> []
        then ''excerpt: '' @ quoted (escape_quotes (excerpt data)) @ [NL] else [])
     @ ''---''"
    by (rule createFrontmatter_text)
  from 1 2 3 4 5 6 7 8 9 have
    "emits_key ''url'' (header_lines data)
   \<and> emits_key ''title'' (header_lines data)
   \<and> emits_key ''timestamp'' (header_lines data)
   \<and> emits_key ''domain'' (header_lines data)
   \<and> emits_key ''word_count'' (header_lines data)
   \<and> (author data \<noteq> [] \<longrightarrow> emits_key ''author'' (header_lines data))
   \<and> (description data \<noteq> [] \<longrightarrow> emits_key ''description'' (header_lines data))
   \<and> (excerpt data \<noteq> [] \<longrightarrow> emits_key ''excerpt'' (header_lines data))
   \<and> (line_feed_free data \<longrightarrow>
         split_lines (createFrontmatter data)
           = [''---'',
              ''url: '' @ quoted (url data),
              ''title: '' @ quoted (escape_quotes (title data)),
              ''timestamp: '' @ quoted (timestamp data),
              ''domain: '' @ quoted (domain data)]
             @ (if author data \<noteq> []
                then [''author: '' @ quoted (escape_quotes (author data))] else [])
             @ (if description data \<noteq> []
                then [''description: '' @ quoted (escape_quotes (description data))] else [])
             @ [''word_count: '' @ show_nat (wordCount data)]
             @ (if excerpt data \<noteq> []
                then [''excerpt: '' @ quoted (escape_quotes (excerpt data))] else [])
             @ [''---'']
         \<and> (emits_key ''author'' (header_lines data) \<longleftrightarrow> author data \<noteq> [])
         \<and> (emits_key ''description'' (header_lines data) \<longleftrightarrow> description data \<noteq> [])
         \<and> (emits_key ''excerpt'' (header_lines data) \<longleftrightarrow> excerpt data \<noteq> []))"
    unfolding frontmatter_lines_eq by blast
  with 0 show ?thesis by (rule conjI)
qed

theorem createFrontmatter_keys_witness:
  "line_feed_free hello_content
   \<and> author hello_content \<noteq> [] \<and> emits_key ''author'' (header_lines hello_content)
   \<and> description hello_content = [] \<and> \<not> emits_key ''description'' (header_lines hello_content)
   \<and> excerpt hello_content \<noteq> [] \<and> emits_key ''excerpt'' (header_lines hello_content)
   \<and> emits_key ''word_count'' (header_lines hello_content)"
proof -
  have f: "line_feed_free hello_content"
    by (simp add: line_feed_free_def hello_content_def)
  have v: "author hello_content \<noteq> []" "description hello_content = []"
    "excerpt hello_content \<noteq> []"
    by (simp_all add: hello_content_def)
  show ?thesis using createFrontmatter_keys [of hello_content] f v by simp
qed

text \<open>
  Claim C4 as stated fails: only double quotes are escaped in a value, so a line feed in
  one value starts a new line of the header.  The record has no author, and its header
  has a line for the key \<open>author\<close>, the second line of the description.
\<close>

theorem createFrontmatter_line_feed_counterexample:
  "author two_line_content = []
   \<and> header_lines two_line_content
       = [''---'',
          ''url: '' @ quoted ''https://ex.com/a'',
          ''title: '' @ quoted ''Notes'',
          ''timestamp: '' @ quoted ''2025-01-01T00:00:00.000Z'',
          ''domain: '' @ quoted ''ex.com'',
          ''description: '' @ [DQ] @ ''first line'',
          ''author: nobody'' @ [DQ],
          ''word_count: 2'',
          ''excerpt: '' @ quoted ''Hello world'',
          ''---'']
   \<and> emits_key ''author'' (header_lines two_line_content)"
proof -
  have w: "show_nat 2 = ''2''" by code_simp
  have h: "header_lines two_line_content
       = [''---'',
          ''url: '' @ quoted ''https://ex.com/a'',
          ''title: '' @ quoted ''Notes'',
          ''timestamp: '' @ quoted ''2025-01-01T00:00:00.000Z'',
          ''domain: '' @ quoted ''ex.com'',
          ''description: '' @ [DQ] @ ''first line'',
          ''author: nobody'' @ [DQ],
          ''word_count: 2'',
          ''excerpt: '' @ quoted ''Hello world'',
          ''---'']"
    by (simp add: header_lines_eq frontmatter_lines_eq two_line_content_def quoted_def w)
  show ?thesis unfolding h by (simp add: two_line_content_def emits_key_def)
qed


section \<open>The converter never fails\<close>

text \<open>
  Claim C2.  \<open>convertToMarkdown\<close> always returns a text, which is not empty and starts
  with the metadata header; when the library's conversion throws, the text under the header
  is the content with its tags stripped in one pass, white space collapsed, and trimmed.
\<close>

theorem convertToMarkdown_fallback:
  "(\<exists>md. convertToMarkdown h data = Inr md \<and> md \<noteq> []
          \<and> take (length (createFrontmatter data)) md = createFrontmatter data)
   \<and> (\<forall>e. turndown h (processUrls h (content data) (url data)) = Inl e
          \<longrightarrow> convertToMarkdown h data
               = Inr (createFrontmatter data @ [NL]
                      @ trim (collapse_ws (strip_tags (content data)))))"
proof -
  obtain rest where "createFrontmatter data = ''---'' @ [NL] @ ''url: '' @ rest"
    using createFrontmatter_prefix by blast
  then have ne: "createFrontmatter data \<noteq> []" by simp
  show ?thesis using ne
    by (auto simp: convertToMarkdown_def try_catch_def fallbackContent_def Let_def
          split: sum.splits)
qed

text \<open>The paragraph that says "Hello world" in the environment whose library throws.\<close>

lemma hello_processUrls:
  "processUrls throwing_host ''<p>Hello world</p>'' u = ''<p>Hello world</p>''"
  by (simp add: processUrls_def throwing_host_def example_parse_def absolute_link_def
        absolute_image_def)

lemma hello_turndown_throws:
  "turndown throwing_host ''<p>Hello world</p>'' = Inl (Thrown ''turndown'')"
  unfolding turndown_def service.simps
  by (simp add: throwing_host_def example_parse_def join_output_def
        trimTrailingNewlines_def trimLeadingNewlines_def forNode_def find_rule_def
        custom_rules_def table_rule_def table_filter_def preformattedCode_rule_def
        strikethrough_rule_def highlight_rule_def figure_rule_def throwing_rule_def
        example_isBlank_def trim_def is_ws_def)

theorem convertToMarkdown_fallback_witness:
  "turndown throwing_host (processUrls throwing_host (content hello_content) (url hello_content))
     = Inl (Thrown ''turndown'')
   \<and> convertToMarkdown throwing_host hello_content
       = Inr (createFrontmatter hello_content @ [NL] @ ''Hello world'')"
proof -
  have c: "content hello_content = ''<p>Hello world</p>''" by (simp add: hello_content_def)
  have a: "turndown throwing_host
             (processUrls throwing_host (content hello_content) (url hello_content))
           = Inl (Thrown ''turndown'')"
    unfolding c hello_processUrls by (rule hello_turndown_throws)
  have b: "trim (collapse_ws (strip_tags (content hello_content))) = ''Hello world''"
    by (simp add: hello_content_def trim_def is_ws_def)
  show ?thesis
    using convertToMarkdown_fallback [of throwing_host hello_content] a b by simp
qed

section \<open>Tables with spanning cells\<close>











text \<open>The passes of the converter after the conversion leave a text as it is when it has
  no line feed, no square bracket and no exclamation mark.\<close>

lemma collapse_newlines_id: "NL \<notin> set s \<Longrightarrow> collapse_newlines s = s"
  by (induction s) auto







text \<open>The two tables in the environment of the examples.\<close>

lemma rowspan_markup:
  "write_node rowspan_table
   = ''<table><tbody><tr><td rowspan='' @ [DQ] @ ''2'' @ [DQ]
     @ ''>a</td><td>b</td></tr><tr><td>c</td></tr></tbody></table>''"
  by (simp add: rowspan_table_def quoted_def)

lemma lambda_markup:
  "write_node lambda_table
   = ''<table><tbody><tr><td rowspan='' @ [DQ] @ ''2'' @ [DQ]
     @ ''>[](x)</td></tr></tbody></table>''"
  by (simp add: lambda_table_def quoted_def)

















section \<open>Title resolution\<close>






text \<open>On the document whose first element of class \<open>title\<close> is a template, the
  whole extraction of the content script throws, and the live document is as it was.\<close>

lemma content_script_template_throws:
  "extractPageContent_js markup_host loc lochost template_document
   = (Inl (Thrown ''TypeError''), [doc_root template_document])"
proof -
  have "getTitle False template_document = Inl (Thrown ''TypeError'')"
    by (simp add: getTitle_def title_selectors_def doc_querySelector_def doc_root_def
          template_document_def classList_def is_html_space_def candidate_text_def
          content_property_def)
  then show ?thesis by (simp add: extractPageContent_js_def)
qed

text \<open>In a document in quirks mode the class selectors of \<open>getTitle\<close> find an element
  whose class is written with a capital.\<close>

lemma getTitle_quirks_mode:
  "getTitle True capital_class_document = Inr ''Capital Class''
   \<and> getTitle False capital_class_document = Inr ''Small Class''"
  by (simp add: getTitle_def title_selectors_def doc_querySelector_def doc_root_def
        capital_class_document_def classList_def is_html_space_def candidate_text_def
        content_property_def to_lower_def trim_def is_ws_def)

section \<open>The final normalisation\<close>

text \<open>The clean-up of the content script leaves single spaces only.\<close>

lemma single_spaced_Cons:
  "single_spaced (c # s)
     = ((is_ws c \<longrightarrow> c = CHR '' '' \<and> (s = [] \<or> non_ws (hd s))) \<and> single_spaced s)"
  by (cases s) auto

lemma collapse_ws_head:
  "non_ws c \<Longrightarrow> collapse_ws (c # cs) = c # collapse_ws cs"
  by simp

lemma dropWhile_ws_cases:
  "dropWhile is_ws cs = [] \<or> non_ws (hd (dropWhile is_ws cs))"
  using hd_dropWhile [of is_ws cs] by blast

lemma single_spaced_collapse_ws: "single_spaced (collapse_ws s)"
proof (induction s rule: collapse_ws.induct)
  case 1
  show ?case by simp
next
  case (2 c cs)
  show ?case
  proof (cases "is_ws c")
    case True
    let ?r = "dropWhile is_ws cs"
    have "collapse_ws ?r = [] \<or> non_ws (hd (collapse_ws ?r))"
    proof (cases ?r)
      case Nil
      then have "collapse_ws ?r = []" by (simp only: collapse_ws.simps)
      then show ?thesis by blast
    next
      case (Cons d ds)
      then have "non_ws d" using dropWhile_ws_cases [of cs] by simp
      then show ?thesis using Cons by simp
    qed
    then show ?thesis using True 2 by (simp add: single_spaced_Cons)
  next
    case False
    then show ?thesis using 2 by (simp add: single_spaced_Cons)
  qed
qed

lemma collapse_ws_single_spaced: "single_spaced s \<Longrightarrow> collapse_ws s = s"
proof (induction s)
  case Nil
  show ?case by simp
next
  case (Cons c s)
  then have s: "collapse_ws s = s" and
    h: "is_ws c \<longrightarrow> c = CHR '' '' \<and> (s = [] \<or> non_ws (hd s))"
    by (simp_all add: single_spaced_Cons)
  show ?case
  proof (cases "is_ws c")
    case True
    then have "dropWhile is_ws s = s" using h by (cases s) auto
    then show ?thesis using True h s by simp
  next
    case False
    then show ?thesis using s by simp
  qed
qed

lemma single_spaced_no_newline: "single_spaced s \<Longrightarrow> NL \<notin> set s"
  by (induction s) (auto simp: single_spaced_Cons is_ws_def)

lemma single_spaced_append: "single_spaced (a @ b) \<Longrightarrow> single_spaced a \<and> single_spaced b"
proof (induction a)
  case Nil
  then show ?case by simp
next
  case (Cons c a)
  then show ?case by (cases a) (auto simp: single_spaced_Cons)
qed

lemma single_spaced_trim: "single_spaced s \<Longrightarrow> single_spaced (trim s)"
proof -
  assume s: "single_spaced s"
  have "s = takeWhile is_ws s @ dropWhile is_ws s" by simp
  then have "single_spaced (dropWhile is_ws s)"
    using s single_spaced_append [of "takeWhile is_ws s" "dropWhile is_ws s"] by simp
  moreover obtain t where "dropWhile is_ws s = trim s @ t" using trim_decomp by blast
  ultimately show ?thesis using single_spaced_append [of "trim s" t] by simp
qed

lemma trim_idem: "trim (trim s) = trim s"
proof -
  obtain t where t: "dropWhile is_ws s = trim s @ t" using trim_decomp by blast
  have "dropWhile is_ws (trim s) = trim s"
  proof (cases "trim s")
    case Nil
    then show ?thesis by simp
  next
    case (Cons c cs)
    then have "hd (dropWhile is_ws s) = c" using t by simp
    moreover have "dropWhile is_ws s \<noteq> []" using t Cons by simp
    ultimately have "non_ws c" using hd_dropWhile [of is_ws s] by auto
    then show ?thesis using Cons by simp
  qed
  then have "trim (trim s) = rev (dropWhile is_ws (rev (trim s)))" by (simp add: trim_def)
  also have "rev (trim s) = dropWhile is_ws (rev (dropWhile is_ws s))" by (simp add: trim_def)
  finally show ?thesis by (simp add: dropWhile_idem trim_def)
qed

lemma clean_up_single_spaced: "single_spaced (clean_up s)"
  by (simp add: clean_up_def single_spaced_collapse_ws single_spaced_no_newline
        collapse_newlines_id single_spaced_trim)

lemma clean_up_eq: "clean_up s = trim (collapse_ws s)"
  by (simp add: clean_up_def single_spaced_collapse_ws single_spaced_no_newline
        collapse_newlines_id)

lemma clean_up_no_newline: "NL \<notin> set (clean_up s)"
  using clean_up_single_spaced single_spaced_no_newline by blast

lemma clean_up_idem: "clean_up (clean_up s) = clean_up s"
proof -
  have "collapse_ws (clean_up s) = clean_up s"
    using clean_up_single_spaced collapse_ws_single_spaced by blast
  then have "clean_up (clean_up s) = trim (clean_up s)" by (simp add: clean_up_eq)
  then show ?thesis by (simp add: clean_up_eq trim_idem)
qed


text \<open>The line-feed pass alone (the clean-up of the other converter starts with it): a
  maximal run of \<open>n\<close> line feeds becomes \<open>min n 2\<close> line feeds.\<close>

lemma collapse_newlines_not_NL:
  "c \<noteq> NL \<Longrightarrow> collapse_newlines (c # cs) = c # collapse_newlines cs"
  by simp

lemma collapse_newlines_pure_run:
  "b = [] \<or> hd b \<noteq> NL \<Longrightarrow>
   collapse_newlines (replicate n NL @ b) = replicate (min n 2) NL @ collapse_newlines b"
proof -
  assume b: "b = [] \<or> hd b \<noteq> NL"
  have tw0: "takeWhile (\<lambda>x. x = NL) b = []" using b by (cases b) auto
  have dw0: "dropWhile (\<lambda>x. x = NL) b = b" using b by (cases b) auto
  have tw: "takeWhile (\<lambda>x. x = NL) (replicate k NL @ b) = replicate k NL" for k
    by (induction k) (simp_all add: tw0)
  have dw: "dropWhile (\<lambda>x. x = NL) (replicate k NL @ b) = b" for k
    by (induction k) (simp_all add: dw0)
  have one: "collapse_newlines (NL # b) = NL # collapse_newlines b"
    using tw [of 0] by simp
  have two: "collapse_newlines (NL # NL # b) = NL # NL # collapse_newlines b"
    using tw [of 1] one by simp
  show ?thesis
  proof (cases "n < 3")
    case True
    then consider "n = 0" | "n = 1" | "n = 2" by linarith
    then show ?thesis using one two by cases (simp_all add: numeral_2_eq_2)
  next
    case False
    define k where "k = n - 3"
    have n: "n = Suc (k + 2)" using False by (simp add: k_def)
    show ?thesis using tw [of "k + 2"] dw [of "k + 2"] by (simp add: n numeral_2_eq_2)
  qed
qed

lemma collapse_newlines_run:
  "a = [] \<or> last a \<noteq> NL \<Longrightarrow> b = [] \<or> hd b \<noteq> NL \<Longrightarrow>
   collapse_newlines (a @ replicate n NL @ b)
     = collapse_newlines a @ replicate (min n 2) NL @ collapse_newlines b"
proof (induction a rule: collapse_newlines.induct)
  case 1
  then show ?case using collapse_newlines_pure_run by simp
next
  case (2 c cs)
  let ?R = "replicate n NL @ b"
  show ?case
  proof (cases "cs = []")
    case True
    then have "c \<noteq> NL" using 2(3) by simp
    then show ?thesis using True collapse_newlines_pure_run [OF 2(4), of n] by simp
  next
    case False
    then have l: "last cs \<noteq> NL" using 2(3) by simp
    then have ex: "\<exists>x\<in>set cs. x \<noteq> NL" using False last_in_set by blast
    then have tw: "takeWhile (\<lambda>x. x = NL) (cs @ ?R) = takeWhile (\<lambda>x. x = NL) cs"
      by (auto simp: takeWhile_append1)
    have dw: "dropWhile (\<lambda>x. x = NL) (cs @ ?R) = dropWhile (\<lambda>x. x = NL) cs @ ?R"
      using ex by (auto simp: dropWhile_append1)
    show ?thesis
    proof (cases "c = NL \<and> 2 \<le> length (takeWhile (\<lambda>x. x = NL) cs)")
      case True
      have ne: "dropWhile (\<lambda>x. x = NL) cs \<noteq> []" using ex by (simp add: dropWhile_eq_Nil_conv)
      then have "last (dropWhile (\<lambda>x. x = NL) cs) = last cs"
        by (metis last_appendR takeWhile_dropWhile_id)
      then have "dropWhile (\<lambda>x. x = NL) cs = [] \<or> last (dropWhile (\<lambda>x. x = NL) cs) \<noteq> NL"
        using l by simp
      from "2.IH"(1) [OF True this 2(4)] True tw dw show ?thesis by simp
    next
      case F: False
      from "2.IH"(2) [OF F _ 2(4)] l F tw show ?thesis by auto
    qed
  qed
qed

text \<open>
  Claim C3 on the content script.  For the markup \<^verbatim>\<open><p>a</p><p>b</p>\<close> the traversal
  yields the two paragraphs three line feeds apart; \<open>convertToMarkdown\<close> returns \<open>a b\<close>,
  the run of blank lines turned into one space by the white-space pass that runs before
  the line-feed pass; the line-feed pass of the other converter, on the same traversal
  output, leaves exactly one blank line.
\<close>

theorem convertToMarkdown_js_blank_lines_lost:
  "htmlToSimpleMarkdown (Element ''div'' [] (parseHTML markup_host ''<p>a</p><p>b</p>''))
     = [NL] @ ''a'' @ [NL, NL, NL] @ ''b'' @ [NL, NL]
   \<and> convertToMarkdown_js markup_host ''<p>a</p><p>b</p>'' = ''a b''
   \<and> trim (collapse_newlines ([NL] @ ''a'' @ [NL, NL, NL] @ ''b'' @ [NL, NL]))
       = ''a'' @ [NL, NL] @ ''b''"
  by (simp add: convertToMarkdown_js_def htmlToSimpleMarkdown_def markup_host_def example_parse_def rowspan_markup lambda_markup
        two_paragraphs_def clean_up_def trim_def is_ws_def)

section \<open>Converting a body again\<close>

text \<open>
  Claim C8, as the script has it.  When the body that \<open>convertToMarkdown\<close> of the content
  script returned holds no markup, that is, parses as the one text node of itself (or as
  nothing when it is empty), converting it again returns it unchanged.
\<close>

theorem convertToMarkdown_js_fixed_point_on_text:
  assumes "parseHTML h (convertToMarkdown_js h html) = [Text (convertToMarkdown_js h html)]
           \<or> (convertToMarkdown_js h html = [] \<and> parseHTML h (convertToMarkdown_js h html) = [])"
  shows "convertToMarkdown_js h (convertToMarkdown_js h html) = convertToMarkdown_js h html"
proof -
  let ?body = "convertToMarkdown_js h html"
  have b: "?body = clean_up (htmlToSimpleMarkdown (Element ''div'' [] (parseHTML h html)))"
    by (simp add: convertToMarkdown_js_def)
  from assms show ?thesis
  proof
    assume p: "parseHTML h ?body = [Text ?body]"
    have "convertToMarkdown_js h ?body = clean_up ?body"
      using p by (simp add: convertToMarkdown_js_def [of h ?body] htmlToSimpleMarkdown_def)
    then show ?thesis using b clean_up_idem by simp
  next
    assume p: "?body = [] \<and> parseHTML h ?body = []"
    then have e: "?body = []" and q: "parseHTML h ?body = []" by blast+
    have "parseHTML h [] = []" using q by (simp only: e)
    then have "convertToMarkdown_js h [] = clean_up []"
      by (simp add: convertToMarkdown_js_def [of h "[]"] htmlToSimpleMarkdown_def)
    then have "convertToMarkdown_js h [] = []" by (simp add: clean_up_def trim_def)
    then show ?thesis using e by simp
  qed
qed

theorem convertToMarkdown_js_fixed_point_on_text_witness:
  "convertToMarkdown_js markup_host ''<p>a</p><p>b</p>'' = ''a b''
   \<and> parseHTML markup_host ''a b'' = [Text ''a b'']
   \<and> convertToMarkdown_js markup_host ''a b'' = ''a b''"
proof -
  have a: "convertToMarkdown_js markup_host ''<p>a</p><p>b</p>'' = ''a b''"
    by (simp add: convertToMarkdown_js_def htmlToSimpleMarkdown_def markup_host_def example_parse_def rowspan_markup lambda_markup
        two_paragraphs_def clean_up_def trim_def is_ws_def)
  have p: "parseHTML markup_host ''a b'' = [Text ''a b'']"
    by (simp add: markup_host_def example_parse_def rowspan_markup lambda_markup)
  show ?thesis
    using convertToMarkdown_js_fixed_point_on_text [of markup_host "''<p>a</p><p>b</p>''"] a p
    by simp
qed

text \<open>
  Claim C8 as stated fails: a text node is emitted verbatim, so the body of the fragment
  \<^verbatim>\<open>a &lt;b&gt;x&lt;/b&gt;\<close> is \<^verbatim>\<open>a <b>x</b>\<close>, which read again as markup has a \<open>b\<close>
  element and converts to \<^verbatim>\<open>a **x**\<close>.
\<close>

theorem convertToMarkdown_js_not_fixed_counterexample:
  "convertToMarkdown_js markup_host ''a &lt;b&gt;x&lt;/b&gt;'' = ''a <b>x</b>''
   \<and> convertToMarkdown_js markup_host (convertToMarkdown_js markup_host ''a &lt;b&gt;x&lt;/b&gt;'')
       = ''a **x**''"
proof -
  have a: "convertToMarkdown_js markup_host ''a &lt;b&gt;x&lt;/b&gt;'' = ''a <b>x</b>''"
    by (simp add: convertToMarkdown_js_def htmlToSimpleMarkdown_def markup_host_def example_parse_def rowspan_markup lambda_markup
        clean_up_def trim_def is_ws_def)
  have b: "convertToMarkdown_js markup_host ''a <b>x</b>'' = ''a **x**''"
    by (simp add: convertToMarkdown_js_def htmlToSimpleMarkdown_def markup_host_def example_parse_def rowspan_markup lambda_markup
        clean_up_def trim_def is_ws_def)
  show ?thesis using a b by simp
qed

section \<open>Cleaning works on a copy\<close>

lemma keeps_refl: "keeps st st" by (simp add: keeps_def)

lemma keeps_length: "keeps st0 st \<Longrightarrow> length st0 \<le> length st"
proof -
  assume "keeps st0 st"
  then have "length (take (length st0) st) = length st0" by (simp add: keeps_def)
  then show ?thesis by simp
qed

lemma keeps_append: "keeps st0 st \<Longrightarrow> keeps st0 (st @ fresh)"
  using keeps_length [of st0 st] by (simp add: keeps_def)

lemma keeps_mutate: "keeps st0 st \<Longrightarrow> length st0 \<le> fst r \<Longrightarrow> keeps st0 (mutate st r f)"
  by (simp add: keeps_def mutate_def)

lemma keeps_remove_all:
  "keeps st0 st \<Longrightarrow> length st0 \<le> fst r
     \<Longrightarrow> keeps st0 (foldl (\<lambda>s sel. remove_all s r sel) st sels)"
  by (induction sels arbitrary: st) (simp_all add: remove_all_def keeps_mutate)

lemma keeps_make_absolute:
  "keeps st0 st \<Longrightarrow> \<forall>r\<in>set rs. length st0 \<le> fst r
     \<Longrightarrow> keeps st0 (snd (make_absolute h loc name st rs))"
proof (induction rs arbitrary: st)
  case Nil
  then show ?case by simp
next
  case (Cons r rs)
  then show ?case
    by (auto simp: keeps_mutate split: option.splits sum.splits)
qed

lemma ref_querySelectorAll_tree: "\<forall>q\<in>set (ref_querySelectorAll st r sel). fst q = fst r"
  by (auto simp: ref_querySelectorAll_def split: option.splits)

lemma cloneNode_cases:
  "cloneNode st r = (res, st1) \<Longrightarrow>
     (\<exists>e. res = Inl e \<and> st1 = st) \<or> (\<exists>n p. res = Inr (length st, p) \<and> st1 = st @ [n])"
  by (auto simp: cloneNode_def split: option.splits)

lemma keeps_cleanContent:
  assumes "keeps st0 st"
  shows "keeps st0 (snd (cleanContent h loc st element))"
proof -
  obtain res st1 where c: "cloneNode st (Some element) = (res, st1)"
    by (cases "cloneNode st (Some element)")
  from cloneNode_cases [OF c] show ?thesis
  proof (elim disjE exE conjE)
    fix e assume "res = Inl e" "st1 = st"
    then show ?thesis using c assms by (simp add: cleanContent_def)
  next
    fix n p assume r: "res = Inr (length st, p)" and s: "st1 = st @ [n]"
    let ?cleaned = "(length st, p)"
    have len: "length st0 \<le> fst ?cleaned" using keeps_length [OF assms] by simp
    let ?st2 = "foldl (\<lambda>s sel. remove_all s ?cleaned sel) st1
                  (map (as_read (quirks_mode h)) clean_unwanted)"
    have k2: "keeps st0 ?st2"
      using keeps_remove_all [OF keeps_append [OF assms] len] s by simp
    let ?l = "make_absolute h loc ''href'' ?st2 (ref_querySelectorAll ?st2 ?cleaned (TagAttr ''a'' ''href''))"
    have k3: "keeps st0 (snd ?l)"
      using keeps_make_absolute [OF k2] ref_querySelectorAll_tree len
      by (metis fst_conv)
    let ?i = "make_absolute h loc ''src'' (snd ?l) (ref_querySelectorAll (snd ?l) ?cleaned (TagAttr ''img'' ''src''))"
    have k4: "keeps st0 (snd ?i)"
      using keeps_make_absolute [OF k3] ref_querySelectorAll_tree len
      by (metis fst_conv)
    obtain a st3 where l: "?l = (a, st3)" by (cases ?l)
    obtain b st4 where i: "?i = (b, st4)" by (cases ?i)
    have k3': "keeps st0 st3" using k3 l by simp
    have k4': "keeps st0 st4" using k4 i by simp
    have i': "make_absolute h loc ''src'' st3
                (ref_querySelectorAll st3 ?cleaned (TagAttr ''img'' ''src'')) = (b, st4)"
      using i l by simp
    have "snd (cleanContent h loc st element) = st3 \<or> snd (cleanContent h loc st element) = st4"
      using c r s l i'
      by (simp add: cleanContent_def Let_def split: sum.splits option.splits)
    then show ?thesis using k3' k4' by auto
  qed
qed

lemma keeps_getMainContent:
  assumes "keeps st0 st"
  shows "keeps st0 (snd (getMainContent h loc st))"
proof (cases "find_container st (map (as_read (quirks_mode h)) contentSelectors)")
  case (Some element)
  then show ?thesis using keeps_cleanContent [OF assms] by (simp add: getMainContent_def)
next
  case None
  obtain res st1 where c: "cloneNode st (document_body st) = (res, st1)"
    by (cases "cloneNode st (document_body st)")
  from cloneNode_cases [OF c] show ?thesis
  proof (elim disjE exE conjE)
    fix e assume "res = Inl e" "st1 = st"
    then show ?thesis using c assms None by (simp add: getMainContent_def)
  next
    fix n p assume r: "res = Inr (length st, p)" and s: "st1 = st @ [n]"
    have len: "length st0 \<le> fst (length st, p)" using keeps_length [OF assms] by simp
    have "keeps st0 (foldl (\<lambda>s sel. remove_all s (length st, p) sel) st1
                        (map (as_read (quirks_mode h)) body_unwanted))"
      using keeps_remove_all [OF keeps_append [OF assms] len] s by simp
    from keeps_cleanContent [OF this] show ?thesis
      using c r None by (simp add: getMainContent_def)
  qed
qed

lemma keeps_temp_div: "keeps st0 st \<Longrightarrow> keeps st0 (snd (temp_div h st html))"
  using keeps_length [of st0 st]
  by (simp add: temp_div_def createElement_def keeps_mutate keeps_append)

lemma keeps_countWords_st: "keeps st0 st \<Longrightarrow> keeps st0 (snd (countWords_st h st html))"
proof -
  assume k: "keeps st0 st"
  obtain temp st1 where t: "temp_div h st html = (temp, st1)" by (cases "temp_div h st html")
  have "keeps st0 st1" using keeps_temp_div [OF k, of h html] t by simp
  moreover have "snd (countWords_st h st html) = st1"
    using t by (simp add: countWords_st_def split: option.splits)
  ultimately show ?thesis by simp
qed

lemma keeps_convertToMarkdown_st:
  "keeps st0 st \<Longrightarrow> keeps st0 (snd (convertToMarkdown_st h st html))"
proof -
  assume k: "keeps st0 st"
  obtain temp st1 where t: "temp_div h st html = (temp, st1)" by (cases "temp_div h st html")
  have "keeps st0 st1" using keeps_temp_div [OF k, of h html] t by simp
  moreover have "snd (convertToMarkdown_st h st html) = st1"
    using t by (simp add: convertToMarkdown_st_def split: option.splits)
  ultimately show ?thesis by simp
qed

lemma extractPageContent_js_returned:
  assumes "extractPageContent_js h loc lochost d = (Inr pc, st)"
  shows "\<exists>cont st1 wc st2 md.
           getMainContent h loc [doc_root d] = (Inr cont, st1)
           \<and> countWords_st h st1 cont = (wc, st2)
           \<and> convertToMarkdown_st h st2 cont = (md, st)
           \<and> pc_content pc = cont \<and> pc_wordCount pc = wc \<and> pc_markdown pc = md"
proof -
  obtain res st1 where g: "getMainContent h loc [doc_root d] = (res, st1)"
    by (cases "getMainContent h loc [doc_root d]")
  from assms g obtain cont where res: "res = Inr cont"
    by (cases res) (auto simp: extractPageContent_js_def split: sum.splits)
  obtain wc st2 where w: "countWords_st h st1 cont = (wc, st2)"
    by (cases "countWords_st h st1 cont")
  obtain md st3 where m: "convertToMarkdown_st h st2 cont = (md, st3)"
    by (cases "convertToMarkdown_st h st2 cont")
  from assms g res w m have "st = st3 \<and> pc_content pc = cont \<and> pc_wordCount pc = wc
      \<and> pc_markdown pc = md"
    by (auto simp: extractPageContent_js_def split: sum.splits)
  with g res w m show ?thesis by auto
qed

lemma keeps_extractPageContent_js:
  "keeps [doc_root d] (snd (extractPageContent_js h loc lochost d))"
proof -
  obtain res st1 where g: "getMainContent h loc [doc_root d] = (res, st1)"
    by (cases "getMainContent h loc [doc_root d]")
  have k1: "keeps [doc_root d] st1"
    using keeps_getMainContent [OF keeps_refl, of "[doc_root d]" h loc] g by simp
  have k: "keeps [doc_root d]
             (snd (case res of
                     Inl e \<Rightarrow> (Inl e, st1)
                   | Inr cont \<Rightarrow>
                       (case countWords_st h st1 cont of
                          (wc, st2) \<Rightarrow>
                            (case convertToMarkdown_st h st2 cont of
                               (markdown, st3) \<Rightarrow> (Inr (f cont wc markdown), st3)))))"
    for f :: "string \<Rightarrow> nat \<Rightarrow> string \<Rightarrow> PageContent"
  proof (cases res)
    case (Inl e)
    then show ?thesis using k1 by simp
  next
    case (Inr cont)
    obtain wc st2 where w: "countWords_st h st1 cont = (wc, st2)"
      by (cases "countWords_st h st1 cont")
    obtain md st3 where m: "convertToMarkdown_st h st2 cont = (md, st3)"
      by (cases "convertToMarkdown_st h st2 cont")
    have k2: "keeps [doc_root d] st2" using keeps_countWords_st [OF k1, of h cont] w by simp
    have k3: "keeps [doc_root d] st3" using keeps_convertToMarkdown_st [OF k2, of h cont] m by simp
    show ?thesis using Inr w m k3 by simp
  qed
  show ?thesis
  proof (cases "getTitle (quirks_mode h) d")
    case (Inl e)
    then show ?thesis by (simp add: extractPageContent_js_def keeps_refl)
  next
    case t: (Inr ttl)
    show ?thesis
    proof (cases "getDescription (quirks_mode h) d")
      case (Inl e)
      then show ?thesis using t by (simp add: extractPageContent_js_def keeps_refl)
    next
      case ds: (Inr descr)
      show ?thesis
      proof (cases "getAuthor (quirks_mode h) d")
        case (Inl e)
        then show ?thesis using t ds by (simp add: extractPageContent_js_def keeps_refl)
      next
        case au: (Inr auth)
        have "extractPageContent_js h loc lochost d
              = (case res of
                   Inl e \<Rightarrow> (Inl e, st1)
                 | Inr cont \<Rightarrow>
                     (case countWords_st h st1 cont of
                        (wc, st2) \<Rightarrow>
                          (case convertToMarkdown_st h st2 cont of
                             (markdown, st3) \<Rightarrow>
                               (Inr \<lparr> pc_url = loc, pc_domain = lochost, pc_title = ttl,
                                      pc_description = descr, pc_author = auth,
                                      pc_content = cont, pc_markdown = markdown,
                                      pc_wordCount = wc, pc_timestamp = now_iso h \<rparr>, st3))))"
          using t ds au g by (simp add: extractPageContent_js_def)
        then show ?thesis using k by simp
      qed
    qed
  qed
qed


text \<open>The two readers of a temporary \<open>div\<close> return what the functions on markup
  return.\<close>

lemma temp_div_eq:
  "temp_div h st html
     = ((length st, []), st @ [Element ''div'' [] (parseHTML h html)])"
  by (simp add: temp_div_def createElement_def mutate_def)

lemma deref_fresh: "deref (st @ [n]) (length st, []) = Some n"
  by (simp add: deref_def)

lemma countWords_st_result: "fst (countWords_st h st html) = countWords_html h html"
  by (simp add: countWords_st_def temp_div_eq deref_fresh countWords_html_def)

lemma convertToMarkdown_st_result:
  "fst (convertToMarkdown_st h st html) = convertToMarkdown_js h html"
  by (simp add: convertToMarkdown_st_def temp_div_eq deref_fresh convertToMarkdown_js_def)

text \<open>The references \<open>querySelectorAll\<close> returns name the elements it returns on
  the tree.\<close>

lemma node_at_paths:
  "map (node_at n) (element_paths n) = map Some (elements n)"
  "map (node_at (Element t as (pre @ ks))) (element_paths_list (length pre) ks)
     = map Some (elements_list ks)"
proof (induction n and ks arbitrary: and pre t as rule: elements_elements_list.induct)
  case (3 t' as' ks')
  from 3 [of t' as' "[]"] show ?case by simp
next
  case (5 k ks)
  have a: "map (node_at (Element t as (pre @ k # ks))) (map ((#) (length pre)) (element_paths k))
           = map (node_at k) (element_paths k)"
    by (simp add: comp_def nth_append)
  from 5(2) [of t as "pre @ [k]"] have b:
    "map (node_at (Element t as (pre @ k # ks))) (element_paths_list (Suc (length pre)) ks)
       = map Some (elements_list ks)" by simp
  show ?case using a b 5(1) by simp
qed simp_all


lemma node_at_append:
  "node_at n (p @ q) = (case node_at n p of None \<Rightarrow> None | Some m \<Rightarrow> node_at m q)"
  by (induction n p rule: node_at.induct) simp_all

lemma ref_querySelectorAll_nodes:
  assumes "deref st r = Some n"
  shows "map (deref st) (ref_querySelectorAll st r sel) = map Some (querySelectorAll n sel)"
proof -
  have t: "fst r < length st" and n: "node_at (st ! fst r) (snd r) = Some n"
    using assms by (auto simp: deref_def split: if_splits)
  have d: "deref st (fst r, snd r @ q) = node_at n q" for q
    using t n by (simp add: deref_def node_at_append)
  let ?ps = "element_paths_list 0 (childNodes n)"
  have m: "map (node_at n) ?ps = map Some (elements_list (childNodes n))"
  proof (cases n)
    case (Element t as ks)
    then show ?thesis using node_at_paths(2) [of t as "[]" ks] by simp
  qed simp_all
  have pm: "path_matches sel n
            = (\<lambda>q. case node_at n q of None \<Rightarrow> False | Some e \<Rightarrow> matches sel e)"
    by (rule ext) (simp add: path_matches_def)
  have "map (deref st) (ref_querySelectorAll st r sel)
        = map (node_at n) (filter (path_matches sel n) ?ps)"
    using assms by (simp add: ref_querySelectorAll_def comp_def d)
  also have "\<dots> = filter (\<lambda>x. case x of None \<Rightarrow> False | Some e \<Rightarrow> matches sel e)
                      (map (node_at n) ?ps)"
    by (simp add: filter_map comp_def pm)
  also have "\<dots> = map Some (filter (matches sel) (elements_list (childNodes n)))"
    by (simp add: m filter_map comp_def)
  finally show ?thesis by (simp add: querySelectorAll_def)
qed

text \<open>A removal on the live document itself, without a clone, does change it.\<close>

lemma in_place_removal_changes_document:
  "\<not> keeps [doc_root script_document]
           (remove_all [doc_root script_document] (0, []) (Tag ''script''))"
  by (simp add: keeps_def remove_all_def mutate_def doc_root_def script_document_def script_body_def)

text \<open>
  Claim C9.  \<open>cleanContent\<close> and \<open>getMainContent\<close> leave every tree that was in the store
  before them as it was, whether they return or throw: all they change is in the clones
  they make.  So does \<open>extractPageContent\<close> of the content script: at its end the tree of
  the live document is the one it started with.
\<close>

theorem clone_before_clean:
  "keeps st (snd (cleanContent h loc st element))
   \<and> keeps st (snd (getMainContent h loc st))
   \<and> keeps [doc_root d] (snd (extractPageContent_js h loc lochost d))
   \<and> hd (snd (extractPageContent_js h loc lochost d)) = doc_root d"
proof -
  have k: "keeps [doc_root d] (snd (extractPageContent_js h loc lochost d))"
    by (rule keeps_extractPageContent_js)
  then have "take 1 (snd (extractPageContent_js h loc lochost d)) = [doc_root d]"
    by (simp add: keeps_def)
  then have "hd (snd (extractPageContent_js h loc lochost d)) = doc_root d"
    by (cases "snd (extractPageContent_js h loc lochost d)") simp_all
  then show ?thesis
    using k keeps_cleanContent [OF keeps_refl] keeps_getMainContent [OF keeps_refl] by blast
qed

section \<open>Two runs of the content script\<close>

text \<open>The content script on the page with the rejected link: the body is cloned, its
  clone is cloned again and cleaned, and the \<open>URL\<close> constructor throws on the link.\<close>

lemma bad_link_find_container:
  "find_container [doc_root bad_link_document] contentSelectors = None"
  by (simp add: contentSelectors_def document_querySelector_def path_matches_def
        doc_root_def bad_link_document_def bad_link_body_def classList_def)

lemma bad_link_body: "document_body [doc_root bad_link_document] = Some (0, [1])"
  by (simp add: document_body_def doc_root_def bad_link_document_def bad_link_body_def)

lemma bad_link_clone_body:
  "cloneNode [doc_root bad_link_document] (Some (0, [1]))
     = (Inr (1, []), [doc_root bad_link_document, bad_link_body])"
  by (simp add: cloneNode_def deref_def doc_root_def bad_link_document_def)

lemma bad_link_body_unwanted:
  "foldl (\<lambda>s sel. remove_all s (1, []) sel)
     [doc_root bad_link_document, bad_link_body] body_unwanted
   = [doc_root bad_link_document, bad_link_body]"
  by (simp add: body_unwanted_def remove_all_def mutate_def bad_link_document_def bad_link_body_def classList_def)

lemma bad_link_clone_again:
  "cloneNode [doc_root bad_link_document, bad_link_body] (Some (1, []))
     = (Inr (2, []),
        [doc_root bad_link_document, bad_link_body, bad_link_body])"
  by (simp add: cloneNode_def deref_def)

lemma bad_link_clean_unwanted:
  "foldl (\<lambda>s sel. remove_all s (2, []) sel)
     [doc_root bad_link_document, bad_link_body, bad_link_body]
     clean_unwanted
   = [doc_root bad_link_document, bad_link_body, bad_link_body]"
  by (simp add: clean_unwanted_def remove_all_def mutate_def bad_link_document_def bad_link_body_def classList_def)

lemma bad_link_links:
  "ref_querySelectorAll
     [doc_root bad_link_document, bad_link_body, bad_link_body]
     (2, []) (TagAttr ''a'' ''href'') = [(2, [0, 0])]"
  by (simp add: ref_querySelectorAll_def deref_def path_matches_def bad_link_document_def bad_link_body_def
        hasAttribute_def)

lemma bad_link_make_absolute:
  "make_absolute markup_host ''https://ex.com/blog/post'' ''href''
     [doc_root bad_link_document, bad_link_body, bad_link_body]
     [(2, [0, 0])]
   = (Inl (Thrown ''Invalid URL''),
      [doc_root bad_link_document, bad_link_body, bad_link_body])"
  by (simp add: deref_def bad_link_document_def bad_link_body_def markup_host_def example_parse_def rowspan_markup lambda_markup example_URL_def)

lemma bad_link_cleanContent:
  "cleanContent markup_host ''https://ex.com/blog/post''
     [doc_root bad_link_document, bad_link_body] (1, [])
   = (Inl (Thrown ''Invalid URL''),
      [doc_root bad_link_document, bad_link_body, bad_link_body])"
  unfolding cleanContent_def example_mode map_as_read_standards bad_link_clone_again prod.case sum.case Let_def
    bad_link_clean_unwanted bad_link_links bad_link_make_absolute
  by simp

lemma bad_link_getMainContent:
  "getMainContent markup_host ''https://ex.com/blog/post'' [doc_root bad_link_document]
   = (Inl (Thrown ''Invalid URL''),
      [doc_root bad_link_document, bad_link_body, bad_link_body])"
  unfolding getMainContent_def example_mode map_as_read_standards bad_link_find_container bad_link_body option.case
    bad_link_clone_body prod.case sum.case bad_link_body_unwanted bad_link_cleanContent
  by simp

text \<open>The content script on the page that says "Hello world".\<close>

lemma hello_find_container:
  "find_container [doc_root hello_document] contentSelectors = None"
  by (simp add: contentSelectors_def document_querySelector_def path_matches_def
        doc_root_def hello_document_def hello_body_def classList_def)

lemma hello_body: "document_body [doc_root hello_document] = Some (0, [1])"
  by (simp add: document_body_def doc_root_def hello_document_def hello_body_def)

lemma hello_clone_body:
  "cloneNode [doc_root hello_document] (Some (0, [1]))
     = (Inr (1, []), [doc_root hello_document, hello_body])"
  by (simp add: cloneNode_def deref_def doc_root_def hello_document_def)

lemma hello_body_unwanted:
  "foldl (\<lambda>s sel. remove_all s (1, []) sel)
     [doc_root hello_document, hello_body] body_unwanted
   = [doc_root hello_document, hello_body]"
  by (simp add: body_unwanted_def remove_all_def mutate_def hello_document_def hello_body_def classList_def)

lemma hello_clone_again:
  "cloneNode [doc_root hello_document, hello_body] (Some (1, []))
     = (Inr (2, []),
        [doc_root hello_document, hello_body, hello_body])"
  by (simp add: cloneNode_def deref_def)

lemma hello_clean_unwanted:
  "foldl (\<lambda>s sel. remove_all s (2, []) sel)
     [doc_root hello_document, hello_body, hello_body]
     clean_unwanted
   = [doc_root hello_document, hello_body, hello_body]"
  by (simp add: clean_unwanted_def remove_all_def mutate_def hello_document_def hello_body_def classList_def)

lemma hello_no_links:
  "ref_querySelectorAll
     [doc_root hello_document, hello_body, hello_body]
     (2, []) (TagAttr t a) = []"
  by (simp add: ref_querySelectorAll_def deref_def path_matches_def hello_document_def hello_body_def
        hasAttribute_def)

lemma hello_cleanContent:
  "cleanContent markup_host loc [doc_root hello_document, hello_body] (1, [])
   = (Inr ''<p>Hello world</p>'',
      [doc_root hello_document, hello_body, hello_body])"
  unfolding cleanContent_def example_mode map_as_read_standards hello_clone_again prod.case sum.case Let_def
    hello_clean_unwanted hello_no_links make_absolute.simps
  by (simp add: deref_def innerHTML_def markup_host_def example_parse_def rowspan_markup lambda_markup hello_document_def hello_body_def)

lemma hello_getMainContent:
  "getMainContent markup_host loc [doc_root hello_document]
   = (Inr ''<p>Hello world</p>'',
      [doc_root hello_document, hello_body, hello_body])"
  unfolding getMainContent_def example_mode map_as_read_standards hello_find_container hello_body option.case
    hello_clone_body prod.case sum.case hello_body_unwanted hello_cleanContent
  by simp

lemma hello_metadata:
  "getTitle False hello_document = Inr ''Greeting''"
  "getDescription False hello_document = Inr ''Hello world''"
  "getAuthor False hello_document = Inr []"
  by (simp_all add: getTitle_def title_selectors_def getDescription_def description_selectors_def
        getAuthor_def byline_selectors_def doc_querySelector_def doc_root_def
        hello_document_def hello_body_def classList_def candidate_text_def content_property_def
        to_lower_def trim_def is_ws_def)

lemma hello_wordCount:
  "\<exists>pc st. extractPageContent_js markup_host ''https://ex.com/a'' ''ex.com'' hello_document
             = (Inr pc, st)
     \<and> pc_content pc = ''<p>Hello world</p>'' \<and> pc_wordCount pc = 2"
proof -
  let ?st1 = "[doc_root hello_document, hello_body, hello_body]"
  obtain wc st2 where w: "countWords_st markup_host ?st1 ''<p>Hello world</p>'' = (wc, st2)"
    by (cases "countWords_st markup_host ?st1 ''<p>Hello world</p>''")
  obtain md st3 where m: "convertToMarkdown_st markup_host st2 ''<p>Hello world</p>'' = (md, st3)"
    by (cases "convertToMarkdown_st markup_host st2 ''<p>Hello world</p>''")
  have "wc = countWords_html markup_host ''<p>Hello world</p>''"
    using countWords_st_result [of markup_host ?st1 "''<p>Hello world</p>''"] w by simp
  also have "\<dots> = 2"
    by (simp add: countWords_html_def countWords_eq tokens_def markup_host_def example_parse_def rowspan_markup lambda_markup is_ws_def)
  finally have wc: "wc = 2" .
  show ?thesis
    unfolding extractPageContent_js_def example_mode hello_metadata sum.case
      hello_getMainContent
      prod.case w m
    using wc by simp
qed

section \<open>The word count of a record\<close>

text \<open>
  Claim C6.  The word count is the number of white-space-delimited non-empty tokens of the
  plain text: \<open>countWords\<close> counts them, 2 for the text "Hello world"; the content script
  counts the text of the markup it is given; the record of the content script carries the
  count for the plain text of its content; and so does the record of the extractor, when
  the library call and the sanitiser returned, and otherwise (the minimal record)
  provided that the markup of the body, parsed again, has the text of the body.
\<close>

theorem countWords_counts_tokens:
  "countWords plainText = length (tokens plainText)
   \<and> countWords ''Hello world'' = 2
   \<and> countWords_html h html = length (tokens (text_of_list (parseHTML h html)))
   \<and> (\<forall>pc st. extractPageContent_js h loc lochost d = (Inr pc, st)
          \<longrightarrow> pc_wordCount pc = length (tokens (text_of_list (parseHTML h (pc_content pc)))))
   \<and> (\<forall>r. extractPageContent h d u = Inr r
            \<and> ((\<exists>result c0 c. defuddle h d = Inr result
                    \<and> chosen_content h d result = Inr c0 \<and> sanitize h c0 = Inr c)
                 \<or> (\<forall>body. doc_body d = Some body
                       \<longrightarrow> text_of_list (parseHTML h (innerHTML h body)) = textContent body))
          \<longrightarrow> wordCount r = length (tokens (text_of_list (parseHTML h (content r)))))"
proof -
  have js: "pc_wordCount pc = length (tokens (text_of_list (parseHTML h (pc_content pc))))"
    if e: "extractPageContent_js h loc lochost d = (Inr pc, st)" for pc st
  proof -
    obtain cont st1 wc st2 where w: "countWords_st h st1 cont = (wc, st2)"
      "pc_content pc = cont" "pc_wordCount pc = wc"
      using extractPageContent_js_returned [OF e] by blast
    have "wc = countWords_html h cont" using countWords_st_result [of h st1 cont] w(1) by simp
    then show ?thesis using w(2,3) by (simp add: countWords_html_def countWords_eq)
  qed
  have ts: "wordCount r = length (tokens (text_of_list (parseHTML h (content r))))"
    if r: "extractPageContent h d u = Inr r"
      and rt: "(\<exists>result c0 c. defuddle h d = Inr result
                  \<and> chosen_content h d result = Inr c0 \<and> sanitize h c0 = Inr c)
               \<or> (\<forall>body. doc_body d = Some body
                     \<longrightarrow> text_of_list (parseHTML h (innerHTML h body)) = textContent body)"
    for r
  proof -
    obtain dmn where dmn: "getDomain h u = Inr dmn" using getDomain_returns by blast
    show ?thesis using r rt dmn
      by (auto simp: extractPageContent_def try_catch_def extract_try_def extract_fallback_def
            body_innerHTML_def body_textContent_def countWords_eq Let_def
            split: sum.splits option.splits)
  qed
  show ?thesis
    using js ts by (simp add: countWords_eq countWords_html_def tokens_def is_ws_def)
qed

theorem countWords_counts_tokens_witness:
  "(\<exists>pc st. extractPageContent_js markup_host ''https://ex.com/a'' ''ex.com'' hello_document
              = (Inr pc, st)
      \<and> pc_content pc = ''<p>Hello world</p>''
      \<and> pc_wordCount pc = 2
      \<and> length (tokens (text_of_list (parseHTML markup_host (pc_content pc)))) = 2)
   \<and> doc_body hello_document = Some hello_body
   \<and> text_of_list (parseHTML throwing_host (innerHTML throwing_host hello_body))
       = textContent hello_body
   \<and> (\<exists>r. extractPageContent throwing_host hello_document ''https://ex.com/a'' = Inr r
          \<and> wordCount r = 2
          \<and> length (tokens (text_of_list (parseHTML throwing_host (content r)))) = 2)"
proof -
  note js = countWords_counts_tokens
    [of "[]" markup_host "[]" "''https://ex.com/a''" "''ex.com''" hello_document "[]"]
  note ts = countWords_counts_tokens
    [of "[]" throwing_host "[]" "[]" "[]" hello_document "''https://ex.com/a''"]
  obtain pc st where pc:
    "extractPageContent_js markup_host ''https://ex.com/a'' ''ex.com'' hello_document = (Inr pc, st)"
    "pc_content pc = ''<p>Hello world</p>''" "pc_wordCount pc = 2"
    using hello_wordCount by blast
  have a: "length (tokens (text_of_list (parseHTML markup_host (pc_content pc)))) = 2"
    using js pc(1,3) by auto
  have bd: "doc_body hello_document = Some hello_body" by (simp add: hello_document_def)
  have rt: "text_of_list (parseHTML throwing_host (innerHTML throwing_host hello_body))
            = textContent hello_body"
    by (simp add: throwing_host_def example_parse_def innerHTML_def hello_body_def)
  obtain r where r: "extractPageContent throwing_host hello_document ''https://ex.com/a'' = Inr r"
    using extractPageContent_returns [OF bd] by blast
  have eq: "wordCount r = length (tokens (text_of_list (parseHTML throwing_host (content r))))"
    using ts r rt bd by auto
  have "wordCount r = 2"
    using r
    by (auto simp: extractPageContent_def try_catch_def extract_try_def extract_fallback_def
          body_innerHTML_def body_textContent_def getDomain_def throwing_host_def
          hello_document_def hello_body_def countWords_eq tokens_def
          is_ws_def Let_def split: sum.splits)
  with pc a bd rt r eq show ?thesis by auto
qed

section \<open>Where the content script differs from the extractor and the converter\<close>

text \<open>
  \<open>extractPageContent\<close> of the content script has no handler of its own (its message
  listener catches and answers with \<open>success: false\<close>); the header of the background
  script always has an author and a description line; and the content script has no table
  rule, so a table is the text of its cells.
\<close>

lemma bad_link_metadata:
  "getTitle False bad_link_document = Inr ''Page''"
  "getDescription False bad_link_document = Inr []"
  "getAuthor False bad_link_document = Inr []"
  by (simp_all add: getTitle_def title_selectors_def getDescription_def description_selectors_def
        getAuthor_def byline_selectors_def doc_querySelector_def doc_root_def
        bad_link_document_def bad_link_body_def classList_def candidate_text_def
        content_property_def to_lower_def trim_def is_ws_def)

lemma content_script_extract_can_throw:
  "fst (extractPageContent_js markup_host ''https://ex.com/blog/post'' ''ex.com'' bad_link_document)
     = Inl (Thrown ''Invalid URL'')"
  unfolding extractPageContent_js_def example_mode bad_link_metadata sum.case
    bad_link_getMainContent
    prod.case
  by simp

lemma createMarkdownFile_always_author_description:
  "emits_key ''author'' (markdown_file_lines data)
   \<and> emits_key ''description'' (markdown_file_lines data)"
  by (simp add: markdown_file_lines_def emits_key_def)

lemma content_script_table_as_text: "md_of_node rowspan_table = ''abc''"
  by (simp add: rowspan_table_def)

end
